theory Spec2Isabelle
  imports Main "HOL-Library.Word" "HOL-Library.Signed_Division" "HOL-Library.Multiset"
begin

unbundle bit_operations_syntax

section \<open>Machine integers and kernel constants\<close>

type_synonym u16 = "16 word"
type_synonym u32 = "32 word"
type_synonym s32 = "32 word"
type_synonym s64 = "64 word"

text \<open>
  Event types and codes of \<^verbatim>\<open>linux/input-event-codes.h\<close>, the axis identifiers and key
  states of the Wayland protocol headers.
\<close>

definition EV_KEY :: u16 where "EV_KEY = 1"
definition EV_REL :: u16 where "EV_REL = 2"
definition EV_ABS :: u16 where "EV_ABS = 3"

definition REL_X :: u16 where "REL_X = 0"
definition REL_Y :: u16 where "REL_Y = 1"
definition REL_Z :: u16 where "REL_Z = 2"
definition REL_HWHEEL :: u16 where "REL_HWHEEL = 6"
definition REL_DIAL :: u16 where "REL_DIAL = 7"
definition REL_WHEEL :: u16 where "REL_WHEEL = 8"

definition ABS_X :: u16 where "ABS_X = 0"
definition ABS_Y :: u16 where "ABS_Y = 1"

definition BTN_MISC :: u16 where "BTN_MISC = 0x100"
definition BTN_GEAR_UP :: u16 where "BTN_GEAR_UP = 0x151"
definition BTN_TRIGGER_HAPPY :: u16 where "BTN_TRIGGER_HAPPY = 0x2c0"

definition WL_POINTER_AXIS_VERTICAL_SCROLL :: u32 where
  "WL_POINTER_AXIS_VERTICAL_SCROLL = 0"
definition WL_POINTER_AXIS_HORIZONTAL_SCROLL :: u32 where
  "WL_POINTER_AXIS_HORIZONTAL_SCROLL = 1"

definition WL_POINTER_BUTTON_STATE_RELEASED :: u32 where
  "WL_POINTER_BUTTON_STATE_RELEASED = 0"
definition WL_POINTER_BUTTON_STATE_PRESSED :: u32 where
  "WL_POINTER_BUTTON_STATE_PRESSED = 1"
definition WL_KEYBOARD_KEY_STATE_RELEASED :: u32 where
  "WL_KEYBOARD_KEY_STATE_RELEASED = 0"
definition WL_KEYBOARD_KEY_STATE_PRESSED :: u32 where
  "WL_KEYBOARD_KEY_STATE_PRESSED = 1"

definition AXIS_STEP_DISTANCE :: s32 where "AXIS_STEP_DISTANCE = 10"

text \<open>\<^verbatim>\<open>wl_fixed_from_int\<close> of \<^verbatim>\<open>wayland-util.h\<close>: \<^verbatim>\<open>return i * 256;\<close> on a 32-bit int.\<close>

definition wl_fixed_from_int :: "s32 \<Rightarrow> s32" where
  "wl_fixed_from_int i = i * 256"

section \<open>The evdev device (evdev\_device.c)\<close>

record timeval =
  tv_sec :: s64
  tv_usec :: s64

record input_event =
  ev_time :: timeval
  ev_type :: u16
  ev_code :: u16
  ev_value :: s32

text \<open>
  \<^verbatim>\<open>timeval_to_msec\<close>: the two fields are C \<^verbatim>\<open>long\<close>s, \<^verbatim>\<open>/\<close> truncates towards zero
  (\<open>sdiv\<close>), and the \<^verbatim>\<open>uint32_t\<close> return type keeps the low 32 bits of the sum.
\<close>

definition timeval_to_msec :: "timeval \<Rightarrow> u32" where
  "timeval_to_msec t = word_of_int (sint (tv_sec t) * 1000 + sint (tv_usec t) sdiv 1000)"

text \<open>
  The calls a device makes on its handler table. A C local that is read before anything
  was assigned to it has no defined value: such an argument is \<open>None\<close>.
\<close>

datatype handler_call =
    Key u32 u16 u32
  | Button u32 u16 u32
  | Axis u32 "u32 option" "u32 option"
  | Relative_motion "u32 option" s32 s32

record swc_evdev_device =
  motion_rel_dx :: s32
  motion_rel_dy :: s32
  motion_rel_pending :: bool

definition handle_key_event ::
  "swc_evdev_device \<Rightarrow> input_event \<Rightarrow> swc_evdev_device \<times> handler_call list" where
  "handle_key_event device input_event =
     (let time = timeval_to_msec (ev_time input_event) in
      if (BTN_MISC \<le> ev_code input_event \<and> ev_code input_event \<le> BTN_GEAR_UP)
         \<or> BTN_TRIGGER_HAPPY \<le> ev_code input_event
      then (device, [Button time (ev_code input_event)
              (if ev_value input_event \<noteq> 0 then WL_POINTER_BUTTON_STATE_PRESSED
               else WL_POINTER_BUTTON_STATE_RELEASED)])
      else (device, [Key time (ev_code input_event)
              (if ev_value input_event \<noteq> 0 then WL_KEYBOARD_KEY_STATE_PRESSED
               else WL_KEYBOARD_KEY_STATE_RELEASED)]))"

text \<open>
  \<^verbatim>\<open>handle_rel_event\<close>: the \<^verbatim>\<open>switch\<close> has four cases and no default. \<^verbatim>\<open>REL_X\<close> and
  \<^verbatim>\<open>REL_Y\<close> return from inside the switch; every other code leaves the switch and reaches
  the \<^verbatim>\<open>axis\<close> call with whatever the locals \<^verbatim>\<open>axis\<close> and \<^verbatim>\<open>amount\<close> hold.
\<close>

definition handle_rel_event ::
  "swc_evdev_device \<Rightarrow> input_event \<Rightarrow> swc_evdev_device \<times> handler_call list" where
  "handle_rel_event device input_event =
     (let time = timeval_to_msec (ev_time input_event) in
      if ev_code input_event = REL_X then
        (device\<lparr>motion_rel_dx := motion_rel_dx device + ev_value input_event,
                motion_rel_pending := True\<rparr>, [])
      else if ev_code input_event = REL_Y then
        (device\<lparr>motion_rel_dy := motion_rel_dy device + ev_value input_event,
                motion_rel_pending := True\<rparr>, [])
      else
        (let (axis, amount) =
           (if ev_code input_event = REL_WHEEL then
              (Some WL_POINTER_AXIS_VERTICAL_SCROLL,
               Some (- AXIS_STEP_DISTANCE * wl_fixed_from_int (ev_value input_event)))
            else if ev_code input_event = REL_HWHEEL then
              (Some WL_POINTER_AXIS_HORIZONTAL_SCROLL,
               Some (AXIS_STEP_DISTANCE * wl_fixed_from_int (ev_value input_event)))
            else (None, None))
         in (device, [Axis time axis amount])))"

definition handle_abs_event ::
  "swc_evdev_device \<Rightarrow> input_event \<Rightarrow> swc_evdev_device \<times> handler_call list" where
  "handle_abs_event device input_event = (device, [])"

text \<open>
  The table \<^verbatim>\<open>event_handlers\<close> has the entries \<^verbatim>\<open>EV_KEY\<close>, \<^verbatim>\<open>EV_REL\<close> and \<^verbatim>\<open>EV_ABS\<close>; index 0
  is a null pointer and a type beyond the table is skipped.
\<close>

definition event_handlers ::
  "u16 \<Rightarrow> (swc_evdev_device \<Rightarrow> input_event \<Rightarrow> swc_evdev_device \<times> handler_call list) option" where
  "event_handlers ty =
     (if ty = EV_KEY then Some handle_key_event
      else if ty = EV_REL then Some handle_rel_event
      else if ty = EV_ABS then Some handle_abs_event
      else None)"

definition is_motion_event :: "input_event \<Rightarrow> bool" where
  "is_motion_event event \<longleftrightarrow>
     (ev_type event = EV_REL \<and> (ev_code event = REL_X \<or> ev_code event = REL_Y))
     \<or> (ev_type event = EV_ABS \<and> (ev_code event = ABS_X \<or> ev_code event = ABS_Y))"

definition handle_motion_events ::
  "swc_evdev_device \<Rightarrow> u32 option \<Rightarrow> swc_evdev_device \<times> handler_call list" where
  "handle_motion_events device time =
     (if motion_rel_pending device then
        (let dx = wl_fixed_from_int (motion_rel_dx device);
             dy = wl_fixed_from_int (motion_rel_dy device)
         in (device\<lparr>motion_rel_pending := False, motion_rel_dx := 0, motion_rel_dy := 0\<rparr>,
             [Relative_motion time dx dy]))
      else (device, []))"

text \<open>
  What one call of \<^verbatim>\<open>libevdev_next_event\<close> can give: \<^verbatim>\<open>-EAGAIN\<close> (nothing to read, the
  event is not written), success or the sync status with an event written, or another
  negative errno with the event not written. The device's input is the list of the
  results of the successive calls; past its end every call gives \<^verbatim>\<open>-EAGAIN\<close>.
\<close>

datatype read_result =
    Read_eagain
  | Read_success input_event
  | Read_sync input_event
  | Read_error

fun libevdev_next_event :: "read_result list \<Rightarrow> read_result \<times> read_result list" where
  "libevdev_next_event [] = (Read_eagain, [])"
| "libevdev_next_event (r # rs) = (r, rs)"

text \<open>The local \<^verbatim>\<open>event\<close> after a call: overwritten when the call delivered an event.\<close>

fun written :: "read_result \<Rightarrow> input_event option \<Rightarrow> input_event option" where
  "written (Read_success e) event = Some e"
| "written (Read_sync e) event = Some e"
| "written Read_eagain event = event"
| "written Read_error event = event"

fun is_sync :: "read_result \<Rightarrow> bool" where
  "is_sync (Read_sync e) = True"
| "is_sync r = False"

text \<open>The inner loop \<^verbatim>\<open>while (ret == LIBEVDEV_READ_STATUS_SYNC)\<close>.\<close>

fun sync_loop ::
  "read_result \<Rightarrow> input_event option \<Rightarrow> read_result list \<Rightarrow> input_event option \<times> read_result list" where
  "sync_loop ret event [] =
     (if is_sync ret then (written Read_eagain event, []) else (event, []))"
| "sync_loop ret event (r # rs) =
     (if is_sync ret then sync_loop r (written r event) rs else (event, r # rs))"

text \<open>
  A read of the local \<^verbatim>\<open>event\<close> that decides a branch while nothing was ever written to
  it is a fault of the run.
\<close>

datatype fault = Uninitialised_event

text \<open>
  The body of the outer loop once an event is in \<^verbatim>\<open>event\<close>: flush the pending motion
  before an event that is not a motion event, then dispatch through \<^verbatim>\<open>event_handlers\<close>.
\<close>

definition handle_event ::
  "swc_evdev_device \<Rightarrow> input_event \<Rightarrow> swc_evdev_device \<times> handler_call list" where
  "handle_event device e =
     (let (device1, calls1) =
            (if \<not> is_motion_event e
             then handle_motion_events device (Some (timeval_to_msec (ev_time e)))
             else (device, []));
          (device2, calls2) =
            (case event_handlers (ev_type e) of
               Some handler \<Rightarrow> handler device1 e
             | None \<Rightarrow> (device1, []))
      in (device2, calls1 @ calls2))"

lemma sync_loop_length: "length (snd (sync_loop ret event rs)) \<le> length rs"
  by (induction rs arbitrary: ret event) (auto intro: le_SucI)

lemma next_event_sync_loop_shorter:
  assumes "(ret, rest) = libevdev_next_event input" and "ret \<noteq> Read_eagain"
  shows "length (snd (sync_loop ret event rest)) < length input"
proof -
  from assms have "input = ret # rest" by (cases input) auto
  then show ?thesis
    using sync_loop_length [of ret event rest] by simp
qed

text \<open>
  The outer loop \<^verbatim>\<open>while (true)\<close> of \<^verbatim>\<open>handle_data\<close>, leaving at \<^verbatim>\<open>-EAGAIN\<close>. It returns the
  device, the local \<^verbatim>\<open>event\<close> as the loop leaves it, and the handler calls made.
\<close>

function handle_data_loop ::
  "swc_evdev_device \<Rightarrow> input_event option \<Rightarrow> read_result list
     \<Rightarrow> fault + (swc_evdev_device \<times> input_event option \<times> handler_call list)" where
  "handle_data_loop device event input =
     (let (ret, rest) = libevdev_next_event input in
      if ret = Read_eagain then Inr (device, event, [])
      else
        (let (event1, rest1) = sync_loop ret (written ret event) rest in
         case event1 of
           None \<Rightarrow> Inl Uninitialised_event
         | Some e \<Rightarrow>
             (let (device2, calls2) = handle_event device e
              in case handle_data_loop device2 event1 rest1 of
                   Inl f \<Rightarrow> Inl f
                 | Inr (device3, event3, calls3) \<Rightarrow>
                     Inr (device3, event3, calls2 @ calls3))))"
  by pat_completeness auto
termination
  by (relation "measure (\<lambda>(device, event, input). length input)")
     (auto simp: case_prod_unfold intro: next_event_sync_loop_shorter)

text \<open>
  \<^verbatim>\<open>handle_data\<close>: after the loop the pending motion is flushed with
  \<^verbatim>\<open>timeval_to_msec(&event.time)\<close>, whatever \<^verbatim>\<open>event\<close> holds then.
\<close>

definition handle_data ::
  "swc_evdev_device \<Rightarrow> read_result list \<Rightarrow> fault + (swc_evdev_device \<times> handler_call list)" where
  "handle_data device input =
     (case handle_data_loop device None input of
        Inl f \<Rightarrow> Inl f
      | Inr (device1, event, calls) \<Rightarrow>
          (let (device2, calls2) =
                 handle_motion_events device1
                   (map_option (\<lambda>e. timeval_to_msec (ev_time e)) event)
           in Inr (device2, calls @ calls2)))"

section \<open>Regions\<close>

text \<open>
  Modelled from the spec: the region library behind \<^verbatim>\<open>pixman_region32_t\<close> is an external
  collaborator and not among the sources. Following the spec's data model (a region is
  a set of integer rectangles with total union, intersection, subtraction and exact
  translation), a region is the set of the points it covers; union, intersection and
  subtraction are those of sets, clearing gives the empty set, and a copy is the value.
\<close>

type_synonym region = "(int \<times> int) set"

record pixman_rectangle32 =
  rect_x :: int
  rect_y :: int
  rect_width :: nat
  rect_height :: nat

record pixman_box32 =
  box_x1 :: int
  box_y1 :: int
  box_x2 :: int
  box_y2 :: int

definition region_rect :: "int \<Rightarrow> int \<Rightarrow> nat \<Rightarrow> nat \<Rightarrow> region" where
  "region_rect x y w h = {x..<x + int w} \<times> {y..<y + int h}"

definition region_with_extents :: "pixman_box32 \<Rightarrow> region" where
  "region_with_extents b = {box_x1 b..<box_x2 b} \<times> {box_y1 b..<box_y2 b}"

definition region_translate :: "region \<Rightarrow> int \<Rightarrow> int \<Rightarrow> region" where
  "region_translate r dx dy = (\<lambda>(px, py). (px + dx, py + dy)) ` r"

section \<open>The compositor (compositor.c)\<close>

record swc_compositor_surface_state =
  clip :: region
  extents :: pixman_box32
  border_damaged :: bool

record swc_surface =
  geometry :: pixman_rectangle32
  state_opaque :: region
  state_damage :: region
  state_input :: region
  class_state :: swc_compositor_surface_state

record swc_output =
  output_id :: nat
  output_geometry :: pixman_rectangle32
  previous_damage :: region

text \<open>
  Modelled from the spec: the macro \<^verbatim>\<open>SWC_OUTPUT_MASK\<close> is declared in \<^verbatim>\<open>output.h\<close>, which is
  not among the sources. The spec's data model gives every output the bit \<open>2^n\<close> of its
  number \<open>n\<close> in the 32-bit masks; a number of 32 or more has no bit (the mask is 0).
\<close>

definition SWC_OUTPUT_MASK :: "swc_output \<Rightarrow> u32" where
  "SWC_OUTPUT_MASK output = push_bit (output_id output) 1"

record swc_binding =
  binding_value :: u32
  binding_modifiers :: u32
  binding_handler :: nat
  binding_data :: nat

text \<open>
  Modelled from the spec: the modifier flags are declared in a header that is not among
  the sources. The spec's ModMask is a flag set over CTRL, ALT, SUPER (LOGO) and SHIFT
  plus the sentinel ANY; the flags are four distinct bits and the sentinel is all ones.
\<close>

definition SWC_MOD_CTRL :: u32 where "SWC_MOD_CTRL = 1"
definition SWC_MOD_ALT :: u32 where "SWC_MOD_ALT = 2"
definition SWC_MOD_LOGO :: u32 where "SWC_MOD_LOGO = 4"
definition SWC_MOD_SHIFT :: u32 where "SWC_MOD_SHIFT = 8"
definition SWC_MOD_ANY :: u32 where "SWC_MOD_ANY = - 1"

text \<open>
  The XKB state of the seat, as far as \<^verbatim>\<open>handle_key\<close> asks it: the keysym of a keycode,
  the effective modifier mask, and the modifiers a keycode consumes
  (\<^verbatim>\<open>xkb_state_mod_mask_remove_consumed\<close> clears those bits of the mask it is given).
\<close>

record xkb_state =
  key_get_one_sym :: "u32 \<Rightarrow> u32"
  mods_effective :: u32
  key_consumed_mods :: "u32 \<Rightarrow> u32"

record xkb_indices =
  index_ctrl :: nat
  index_alt :: nat
  index_super :: nat
  index_shift :: nat

record swc_seat =
  xkb_st :: xkb_state
  xkb_ix :: xkb_indices

definition xkb_state_mod_mask_remove_consumed :: "xkb_state \<Rightarrow> u32 \<Rightarrow> u32 \<Rightarrow> u32" where
  "xkb_state_mod_mask_remove_consumed st key mod_mask =
     mod_mask AND NOT (key_consumed_mods st key)"

text \<open>
  What the compositor does to its collaborators (renderer, planes, DRM, event loop,
  surfaces, binding handlers, the standard streams), in the order of the calls. A
  \<^verbatim>\<open>printf\<close> or \<^verbatim>\<open>fprintf\<close> is recorded with the visible text of its message.
\<close>

datatype effect =
    Renderer_flush swc_surface
  | Renderer_set_target nat
  | Renderer_repaint region region "swc_surface list"
  | Plane_flip nat
  | Print string
  | Send_frame_callbacks swc_surface u32
  | Drm_set_master
  | Drm_drop_master
  | Add_idle_perform_update
  | Call_binding_handler nat u32 u32 nat

record swc_compositor =
  seat :: swc_seat
  surfaces :: "swc_surface list"
  outputs :: "swc_output list"
  damage :: region
  opaque :: region
  scheduled_updates :: u32
  pending_flips :: u32
  key_bindings :: "swc_binding list"
  trace :: "effect list"

definition emit :: "effect list \<Rightarrow> swc_compositor \<Rightarrow> swc_compositor" where
  "emit es compositor = compositor\<lparr>trace := trace compositor @ es\<rparr>"

subsection \<open>Damage calculation\<close>

text \<open>
  One pass of the loop of \<^verbatim>\<open>calculate_damage\<close> over a surface, giving the compositor and
  the surface as the pass leaves them.
\<close>

definition calculate_damage_surface ::
  "swc_compositor \<Rightarrow> swc_surface \<Rightarrow> swc_compositor \<times> swc_surface" where
  "calculate_damage_surface compositor surface =
     (let g = geometry surface;
          surface1 = surface\<lparr>class_state := (class_state surface)\<lparr>clip := opaque compositor\<rparr>\<rparr>;
          surface_opaque = region_translate (state_opaque surface1) (rect_x g) (rect_y g);
          compositor1 = compositor\<lparr>opaque := opaque compositor \<union> surface_opaque\<rparr>;
          (compositor2, surface2) =
            (if state_damage surface1 \<noteq> {} then
               (let c = emit [Renderer_flush surface1] compositor1;
                    translated = region_translate (state_damage surface1) (rect_x g) (rect_y g)
                in (c\<lparr>damage := damage c \<union> translated\<rparr>, surface1\<lparr>state_damage := {}\<rparr>))
             else (compositor1, surface1))
      in if border_damaged (class_state surface2) then
           (let border_region = region_with_extents (extents (class_state surface2));
                surface_region = region_rect (rect_x g) (rect_y g) (rect_width g) (rect_height g);
                border_region1 = border_region - surface_region
            in (compositor2\<lparr>damage := damage compositor2 \<union> border_region1\<rparr>,
                surface2\<lparr>class_state := (class_state surface2)\<lparr>border_damaged := False\<rparr>\<rparr>))
         else (compositor2, surface2))"

fun calculate_damage_loop ::
  "swc_compositor \<Rightarrow> swc_surface list \<Rightarrow> swc_compositor \<times> swc_surface list" where
  "calculate_damage_loop compositor [] = (compositor, [])"
| "calculate_damage_loop compositor (surface # rest) =
     (let (compositor1, surface1) = calculate_damage_surface compositor surface;
          (compositor2, rest1) = calculate_damage_loop compositor1 rest
      in (compositor2, surface1 # rest1))"

definition calculate_damage :: "swc_compositor \<Rightarrow> swc_compositor" where
  "calculate_damage compositor =
     (let (compositor1, surfaces1) =
            calculate_damage_loop (compositor\<lparr>opaque := {}\<rparr>) (surfaces compositor)
      in compositor1\<lparr>surfaces := surfaces1\<rparr>)"

subsection \<open>Repainting and the update\<close>

text \<open>
  \<^verbatim>\<open>repaint_output\<close>. \<^verbatim>\<open>swc_plane_flip\<close> is not among the sources: whether the flip of an
  output's plane is accepted is the parameter \<open>flip_ok\<close>.
\<close>

definition repaint_output ::
  "(nat \<Rightarrow> bool) \<Rightarrow> swc_compositor \<Rightarrow> swc_output \<Rightarrow> swc_compositor \<times> swc_output" where
  "repaint_output flip_ok compositor output =
     (let g = output_geometry output;
          damage0 = damage compositor
                      \<inter> region_rect (rect_x g) (rect_y g) (rect_width g) (rect_height g);
          previous = previous_damage output;
          output1 = output\<lparr>previous_damage := damage0\<rparr>;
          damage1 = damage0 \<union> previous;
          base_damage = damage1 - opaque compositor;
          compositor1 = emit [Renderer_set_target (output_id output),
                              Renderer_repaint damage1 base_damage (surfaces compositor)]
                          compositor;
          compositor2 = compositor1\<lparr>damage := damage compositor1 - damage1\<rparr>;
          compositor3 = emit [Plane_flip (output_id output)] compositor2
      in if \<not> flip_ok (output_id output)
         then (emit [Print ''Plane flip failed''] compositor3, output1)
         else (compositor3, output1))"

text \<open>The loop of \<^verbatim>\<open>perform_update\<close> over the outputs.\<close>

fun repaint_outputs ::
  "(nat \<Rightarrow> bool) \<Rightarrow> u32 \<Rightarrow> swc_compositor \<Rightarrow> swc_output list \<Rightarrow> swc_compositor \<times> swc_output list" where
  "repaint_outputs flip_ok updates compositor [] = (compositor, [])"
| "repaint_outputs flip_ok updates compositor (output # rest) =
     (let (compositor1, output1) =
            (if updates AND SWC_OUTPUT_MASK output \<noteq> 0
             then repaint_output flip_ok compositor output
             else (compositor, output));
          (compositor2, rest1) = repaint_outputs flip_ok updates compositor1 rest
      in (compositor2, output1 # rest1))"

definition perform_update :: "(nat \<Rightarrow> bool) \<Rightarrow> swc_compositor \<Rightarrow> swc_compositor" where
  "perform_update flip_ok compositor =
     (let updates = scheduled_updates compositor AND NOT (pending_flips compositor)
      in if updates \<noteq> 0 then
           (let compositor1 = calculate_damage (emit [Print ''performing update''] compositor);
                (compositor2, outputs1) =
                  repaint_outputs flip_ok updates compositor1 (outputs compositor1);
                compositor3 = compositor2\<lparr>outputs := outputs1\<rparr>;
                compositor4 = compositor3\<lparr>pending_flips := pending_flips compositor3 OR updates\<rparr>
            in compositor4\<lparr>scheduled_updates := scheduled_updates compositor4 AND NOT updates\<rparr>)
         else compositor)"

subsection \<open>Key bindings\<close>

text \<open>
  The block of \<^verbatim>\<open>handle_key\<close> that turns the XKB modifier mask of the key, consumed
  modifiers removed, into the compositor's modifier flags.
\<close>

definition key_modifiers :: "swc_seat \<Rightarrow> u32 \<Rightarrow> u32" where
  "key_modifiers s key =
     (let mod_mask = mods_effective (xkb_st s);
          mod_mask = xkb_state_mod_mask_remove_consumed (xkb_st s) (key + 8) mod_mask;
          modifiers = 0;
          modifiers = (if mod_mask AND push_bit (index_ctrl (xkb_ix s)) 1 \<noteq> 0
                       then modifiers OR SWC_MOD_CTRL else modifiers);
          modifiers = (if mod_mask AND push_bit (index_alt (xkb_ix s)) 1 \<noteq> 0
                       then modifiers OR SWC_MOD_ALT else modifiers);
          modifiers = (if mod_mask AND push_bit (index_super (xkb_ix s)) 1 \<noteq> 0
                       then modifiers OR SWC_MOD_LOGO else modifiers);
          modifiers = (if mod_mask AND push_bit (index_shift (xkb_ix s)) 1 \<noteq> 0
                       then modifiers OR SWC_MOD_SHIFT else modifiers)
      in modifiers)"

text \<open>The scan \<^verbatim>\<open>wl_array_for_each(binding, &compositor->key_bindings)\<close>.\<close>

fun scan_bindings ::
  "swc_seat \<Rightarrow> u32 \<Rightarrow> u32 \<Rightarrow> u32 \<Rightarrow> swc_binding list \<Rightarrow> bool \<times> effect list" where
  "scan_bindings s time key keysym [] = (False, [])"
| "scan_bindings s time key keysym (binding # rest) =
     (if binding_value binding = keysym then
        (let modifiers = key_modifiers s key in
         if binding_modifiers binding = SWC_MOD_ANY \<or> binding_modifiers binding = modifiers
         then (True, [Call_binding_handler (binding_handler binding) time keysym
                        (binding_data binding),
                      Print ''-> handled''])
         else scan_bindings s time key keysym rest)
      else scan_bindings s time key keysym rest)"

definition handle_key ::
  "swc_compositor \<Rightarrow> u32 \<Rightarrow> u32 \<Rightarrow> u32 \<Rightarrow> bool \<times> swc_compositor" where
  "handle_key compositor time key state =
     (if state = WL_KEYBOARD_KEY_STATE_PRESSED then
        (let keysym = key_get_one_sym (xkb_st (seat compositor)) (key + 8);
             (handled, calls) =
               scan_bindings (seat compositor) time key keysym (key_bindings compositor)
         in (handled, emit calls compositor))
      else (False, compositor))"

subsection \<open>TTY and DRM events, scheduling\<close>

text \<open>
  The event types the two listeners switch on; neither switch has a default, so any
  other type falls through with nothing done.
\<close>

datatype swc_tty_event = SWC_TTY_VT_ENTER | SWC_TTY_VT_LEAVE | SWC_TTY_other

definition handle_tty_event :: "swc_compositor \<Rightarrow> swc_tty_event \<Rightarrow> swc_compositor" where
  "handle_tty_event compositor event =
     (case event of
        SWC_TTY_VT_ENTER \<Rightarrow> emit [Drm_set_master] compositor
      | SWC_TTY_VT_LEAVE \<Rightarrow> emit [Drm_drop_master] compositor
      | SWC_TTY_other \<Rightarrow> compositor)"

record swc_drm_event_data =
  event_output :: swc_output
  event_time :: u32

datatype swc_drm_event = SWC_DRM_PAGE_FLIP swc_drm_event_data | SWC_DRM_other

definition handle_drm_event ::
  "(nat \<Rightarrow> bool) \<Rightarrow> swc_compositor \<Rightarrow> swc_drm_event \<Rightarrow> swc_compositor" where
  "handle_drm_event flip_ok compositor event =
     (case event of
        SWC_DRM_PAGE_FLIP event_data \<Rightarrow>
          (let compositor1 = compositor\<lparr>pending_flips :=
                 pending_flips compositor AND NOT (SWC_OUTPUT_MASK (event_output event_data))\<rparr>;
               compositor2 =
                 (if pending_flips compositor1 = 0
                  then emit (map (\<lambda>surface. Send_frame_callbacks surface (event_time event_data))
                               (surfaces compositor1)) compositor1
                  else compositor1)
           in if scheduled_updates compositor2 \<noteq> 0
              then perform_update flip_ok compositor2
              else compositor2)
      | SWC_DRM_other \<Rightarrow> compositor)"

definition swc_compositor_add_key_binding ::
  "swc_compositor \<Rightarrow> u32 \<Rightarrow> u32 \<Rightarrow> nat \<Rightarrow> nat \<Rightarrow> swc_compositor" where
  "swc_compositor_add_key_binding compositor mods v h d =
     compositor\<lparr>key_bindings := key_bindings compositor @
       [\<lparr>binding_value = v, binding_modifiers = mods, binding_handler = h, binding_data = d\<rparr>]\<rparr>"

definition swc_compositor_schedule_update ::
  "swc_compositor \<Rightarrow> swc_output \<Rightarrow> swc_compositor" where
  "swc_compositor_schedule_update compositor output =
     (let update_scheduled = (scheduled_updates compositor \<noteq> 0) in
      if scheduled_updates compositor AND SWC_OUTPUT_MASK output \<noteq> 0 then compositor
      else
        (let compositor1 = compositor\<lparr>scheduled_updates :=
               scheduled_updates compositor OR SWC_OUTPUT_MASK output\<rparr>
         in if \<not> update_scheduled
            then emit [Add_idle_perform_update] compositor1
            else compositor1))"

section \<open>Observations and the spec's vocabulary\<close>

text \<open>
  Projections of a trace: the planes flipped, the render targets set, the frame callbacks
  sent (surface and time) and the number of \<^verbatim>\<open>perform_update\<close> idle tasks added, each in
  the order of the calls.
\<close>

fun flip_of :: "effect \<Rightarrow> nat list" where
  "flip_of (Plane_flip i) = [i]"
| "flip_of e = []"

fun target_of :: "effect \<Rightarrow> nat list" where
  "target_of (Renderer_set_target i) = [i]"
| "target_of e = []"

fun frame_callback_of :: "effect \<Rightarrow> (swc_surface \<times> u32) list" where
  "frame_callback_of (Send_frame_callbacks s t) = [(s, t)]"
| "frame_callback_of e = []"

definition plane_flips :: "effect list \<Rightarrow> nat list" where
  "plane_flips tr = concat (map flip_of tr)"

definition repaint_targets :: "effect list \<Rightarrow> nat list" where
  "repaint_targets tr = concat (map target_of tr)"

definition frame_callbacks :: "effect list \<Rightarrow> (swc_surface \<times> u32) list" where
  "frame_callbacks tr = concat (map frame_callback_of tr)"

definition idle_tasks :: "effect list \<Rightarrow> nat" where
  "idle_tasks tr = length (filter (\<lambda>e. e = Add_idle_perform_update) tr)"

text \<open>
  The calls of one repaint (render target, repaint, plane flip), kept in their order.
\<close>

fun is_output_call :: "effect \<Rightarrow> bool" where
  "is_output_call (Renderer_set_target i) = True"
| "is_output_call (Renderer_repaint t b ss) = True"
| "is_output_call (Plane_flip i) = True"
| "is_output_call e = False"

definition output_calls :: "effect list \<Rightarrow> effect list" where
  "output_calls tr = filter is_output_call tr"

text \<open>
  The spec's per-output repaint, in its own words: the frame's damage is the
  compositor's damage cut to the output's geometry; it becomes the output's
  \<open>previous_damage\<close>; the total is the frame's damage united with the earlier
  \<open>previous_damage\<close>; the base is the total less the opaque region; the renderer repaints
  total and base on the output's plane, the plane is flipped, and the total leaves the
  compositor's damage. The three functions give, for the outputs serviced one after the
  other from a damage \<open>d\<close>, the calls made, the damage left, and the outputs afterwards.
\<close>

definition output_rect :: "swc_output \<Rightarrow> region" where
  "output_rect out = region_rect (rect_x (output_geometry out)) (rect_y (output_geometry out))
                       (rect_width (output_geometry out)) (rect_height (output_geometry out))"

definition spec_frame_damage :: "region \<Rightarrow> swc_output \<Rightarrow> region" where
  "spec_frame_damage d out = d \<inter> output_rect out"

definition spec_total_damage :: "region \<Rightarrow> swc_output \<Rightarrow> region" where
  "spec_total_damage d out = spec_frame_damage d out \<union> previous_damage out"

fun spec_repaint_calls ::
  "region \<Rightarrow> region \<Rightarrow> swc_surface list \<Rightarrow> swc_output list \<Rightarrow> effect list" where
  "spec_repaint_calls d opq ss [] = []"
| "spec_repaint_calls d opq ss (out # rest) =
     [Renderer_set_target (output_id out),
      Renderer_repaint (spec_total_damage d out) (spec_total_damage d out - opq) ss,
      Plane_flip (output_id out)]
     @ spec_repaint_calls (d - spec_total_damage d out) opq ss rest"

fun spec_damage_after :: "region \<Rightarrow> swc_output list \<Rightarrow> region" where
  "spec_damage_after d [] = d"
| "spec_damage_after d (out # rest) = spec_damage_after (d - spec_total_damage d out) rest"

fun spec_repainted_outputs :: "(swc_output \<Rightarrow> bool) \<Rightarrow> region \<Rightarrow> swc_output list \<Rightarrow> swc_output list" where
  "spec_repainted_outputs in_u d [] = []"
| "spec_repainted_outputs in_u d (out # rest) =
     (if in_u out
      then out\<lparr>previous_damage := spec_frame_damage d out\<rparr>
           # spec_repainted_outputs in_u (d - spec_total_damage d out) rest
      else out # spec_repainted_outputs in_u d rest)"

text \<open>The opaque region of a surface in global coordinates.\<close>

definition translated_opaque :: "swc_surface \<Rightarrow> region" where
  "translated_opaque s = region_translate (state_opaque s) (rect_x (geometry s)) (rect_y (geometry s))"

text \<open>
  The spec's matching rule for key bindings: the effective modifiers of the key are the
  flags whose XKB modifier is set in the effective mask once the modifiers the key
  consumes are removed; a binding matches when its value is the keysym and its modifiers
  are the sentinel ANY or exactly those flags.
\<close>

definition effective_modifiers :: "swc_seat \<Rightarrow> u32 \<Rightarrow> u32" where
  "effective_modifiers s key =
     (let m = mods_effective (xkb_st s) AND NOT (key_consumed_mods (xkb_st s) (key + 8))
      in (if bit m (index_ctrl (xkb_ix s)) then SWC_MOD_CTRL else 0)
         OR (if bit m (index_alt (xkb_ix s)) then SWC_MOD_ALT else 0)
         OR (if bit m (index_super (xkb_ix s)) then SWC_MOD_LOGO else 0)
         OR (if bit m (index_shift (xkb_ix s)) then SWC_MOD_SHIFT else 0))"

definition binding_matches :: "swc_seat \<Rightarrow> u32 \<Rightarrow> u32 \<Rightarrow> swc_binding \<Rightarrow> bool" where
  "binding_matches s key keysym b \<longleftrightarrow>
     binding_value b = keysym
     \<and> (binding_modifiers b = SWC_MOD_ANY \<or> binding_modifiers b = effective_modifiers s key)"

section \<open>Runs of the compositor\<close>

text \<open>
  A page flip completes only for a flip that was submitted. The flips
  \<^verbatim>\<open>perform_update\<close> submits are those of the outputs it services whose plane accepts the
  flip. A run starts from the state \<^verbatim>\<open>swc_compositor_initialize\<close> leaves (both masks zero,
  nothing in flight) and goes on by the entry points of the compositor: scheduling an
  update, the idle task, a page-flip event of a flip in flight, a TTY event, a key, a new
  key binding, or a change of the surfaces by their owner. The second component is the
  set of outputs, by number, whose flip is in flight.
\<close>

definition flips_submitted :: "(nat \<Rightarrow> bool) \<Rightarrow> swc_compositor \<Rightarrow> nat set" where
  "flips_submitted flip_ok c =
     set (map output_id
       (filter (\<lambda>out. (scheduled_updates c AND NOT (pending_flips c)) AND SWC_OUTPUT_MASK out \<noteq> 0
                       \<and> flip_ok (output_id out))
          (outputs c)))"

inductive reachable :: "swc_compositor \<times> nat set \<Rightarrow> bool" where
  initialize:
    "scheduled_updates c = 0 \<Longrightarrow> pending_flips c = 0 \<Longrightarrow> reachable (c, {})"
| schedule_update:
    "reachable (c, in_flight) \<Longrightarrow> reachable (swc_compositor_schedule_update c out, in_flight)"
| idle:
    "reachable (c, in_flight) \<Longrightarrow>
     reachable (perform_update flip_ok c, in_flight \<union> flips_submitted flip_ok c)"
| page_flip:
    "reachable (c, in_flight) \<Longrightarrow> output_id (event_output d) \<in> in_flight \<Longrightarrow>
     reachable (handle_drm_event flip_ok c (SWC_DRM_PAGE_FLIP d),
                (in_flight - {output_id (event_output d)})
                \<union> flips_submitted flip_ok
                    (c\<lparr>pending_flips := pending_flips c AND NOT (SWC_OUTPUT_MASK (event_output d))\<rparr>))"
| tty_event:
    "reachable (c, in_flight) \<Longrightarrow> reachable (handle_tty_event c e, in_flight)"
| key:
    "reachable (c, in_flight) \<Longrightarrow> reachable (snd (handle_key c time k state), in_flight)"
| add_key_binding:
    "reachable (c, in_flight) \<Longrightarrow>
     reachable (swc_compositor_add_key_binding c mods v h dat, in_flight)"
| surfaces_changed:
    "reachable (c, in_flight) \<Longrightarrow> reachable (c\<lparr>surfaces := ss\<rparr>, in_flight)"

section \<open>The spec's scenarios\<close>

text \<open>
  The seat of scenario S4 (Shift and Control effective, Shift consumed by the key; every
  keycode gives the keysym BackSpace), the surface and the output of scenario S1 in an
  idle compositor with one binding for Control alone, and the two surfaces of scenario S3.
\<close>

definition S4_seat :: swc_seat where
  "S4_seat = \<lparr>xkb_st = \<lparr>key_get_one_sym = (\<lambda>k. 0xff08), mods_effective = 5,
                          key_consumed_mods = (\<lambda>k. 1)\<rparr>,
              xkb_ix = \<lparr>index_ctrl = 2, index_alt = 3, index_super = 6, index_shift = 0\<rparr>\<rparr>"

definition S1_surface :: swc_surface where
  "S1_surface = \<lparr>geometry = \<lparr>rect_x = 100, rect_y = 100, rect_width = 200, rect_height = 150\<rparr>,
                 state_opaque = {}, state_damage = region_rect 0 0 200 150, state_input = {},
                 class_state = \<lparr>clip = {},
                                extents = \<lparr>box_x1 = 100, box_y1 = 100, box_x2 = 300, box_y2 = 250\<rparr>,
                                border_damaged = False\<rparr>\<rparr>"

definition S1_output :: swc_output where
  "S1_output = \<lparr>output_id = 0,
                output_geometry = \<lparr>rect_x = 0, rect_y = 0, rect_width = 1920, rect_height = 1080\<rparr>,
                previous_damage = {}\<rparr>"

definition S1_compositor :: swc_compositor where
  "S1_compositor = \<lparr>seat = S4_seat, surfaces = [S1_surface], outputs = [S1_output],
                    damage = {}, opaque = {}, scheduled_updates = 0, pending_flips = 0,
                    key_bindings = [\<lparr>binding_value = 0xff08, binding_modifiers = SWC_MOD_CTRL,
                                     binding_handler = 1, binding_data = 0\<rparr>],
                    trace = []\<rparr>"

definition S3_A :: swc_surface where
  "S3_A = \<lparr>geometry = \<lparr>rect_x = 0, rect_y = 0, rect_width = 100, rect_height = 100\<rparr>,
           state_opaque = region_rect 0 0 100 100, state_damage = {}, state_input = {},
           class_state = \<lparr>clip = {},
                          extents = \<lparr>box_x1 = 0, box_y1 = 0, box_x2 = 100, box_y2 = 100\<rparr>,
                          border_damaged = False\<rparr>\<rparr>"

definition S3_B :: swc_surface where
  "S3_B = \<lparr>geometry = \<lparr>rect_x = 0, rect_y = 0, rect_width = 100, rect_height = 100\<rparr>,
           state_opaque = {}, state_damage = region_rect 0 0 100 100, state_input = {},
           class_state = \<lparr>clip = {},
                          extents = \<lparr>box_x1 = 0, box_y1 = 0, box_x2 = 100, box_y2 = 100\<rparr>,
                          border_damaged = False\<rparr>\<rparr>"

section \<open>The evdev device: wheel events and the trailing flush\<close>

lemma sint_mult_2560:
  fixes v :: s32
  assumes "- 838860 \<le> sint v" and "sint v \<le> 838860"
  shows "sint (- 2560 * v) = - 2560 * sint v" and "sint (2560 * v) = 2560 * sint v"
proof -
  have a: "- 2560 * v = (word_of_int (- 2560 * sint v) :: s32)"
    and b: "2560 * v = (word_of_int (2560 * sint v) :: s32)"
    by simp_all
  show "sint (- 2560 * v) = - 2560 * sint v"
    unfolding a sint_sbintrunc' using assms by (intro signed_take_bit_int_eq_self) auto
  show "sint (2560 * v) = 2560 * sint v"
    unfolding b sint_sbintrunc' using assms by (intro signed_take_bit_int_eq_self) auto
qed

lemma timeval_to_msec_exact:
  assumes "0 \<le> sint (tv_sec t)" and "0 \<le> sint (tv_usec t)"
    and "sint (tv_sec t) * 1000 + sint (tv_usec t) div 1000 < 2 ^ 32"
  shows "uint (timeval_to_msec t) = sint (tv_sec t) * 1000 + sint (tv_usec t) div 1000"
proof -
  have sd: "sint (tv_usec t) sdiv 1000 = sint (tv_usec t) div 1000"
    using assms(2) by (simp add: signed_divide_int_def sgn_if)
  have nn: "0 \<le> sint (tv_sec t) * 1000 + sint (tv_usec t) div 1000"
    using assms(1,2) by (simp add: pos_imp_zdiv_nonneg_iff)
  show ?thesis
    unfolding timeval_to_msec_def sd uint_word_of_int_eq
    using nn assms(3) by (intro take_bit_int_eq_self) simp_all
qed

lemma handle_rel_event_wheel:
  assumes "ev_code ev = REL_WHEEL"
  shows "handle_rel_event device ev =
           (device, [Axis (timeval_to_msec (ev_time ev)) (Some WL_POINTER_AXIS_VERTICAL_SCROLL)
                       (Some (- 2560 * ev_value ev))])"
  using assms
  by (simp add: handle_rel_event_def REL_WHEEL_def REL_X_def REL_Y_def
        AXIS_STEP_DISTANCE_def wl_fixed_from_int_def)

lemma handle_rel_event_hwheel:
  assumes "ev_code ev = REL_HWHEEL"
  shows "handle_rel_event device ev =
           (device, [Axis (timeval_to_msec (ev_time ev)) (Some WL_POINTER_AXIS_HORIZONTAL_SCROLL)
                       (Some (2560 * ev_value ev))])"
  using assms
  by (simp add: handle_rel_event_def REL_HWHEEL_def REL_WHEEL_def REL_X_def REL_Y_def
        AXIS_STEP_DISTANCE_def wl_fixed_from_int_def)

text \<open>
  Claim C8. An \<^verbatim>\<open>EV_REL\<close> event with code \<^verbatim>\<open>REL_WHEEL\<close> and value \<open>v\<close> at time
  \<open>(sec, usec)\<close> makes exactly one handler call, the axis call with time
  \<open>sec * 1000 + usec / 1000\<close>, the vertical scroll axis and the amount \<open>-10 * 256 * v\<close>;
  with code \<^verbatim>\<open>REL_HWHEEL\<close> it is the horizontal axis and \<open>+10 * 256 * v\<close>. Time and
  amount are the code's 32-bit values: the time is the sum reduced modulo \<open>2^32\<close> (the
  spec's 32-bit millisecond counter) and is the sum itself while that is below \<open>2^32\<close>;
  the amount, read as a signed 24.8 number, is \<open>-2560 * v\<close> (or \<open>2560 * v\<close>) itself
  for every \<open>v\<close> whose product fits 32 bits.
\<close>

theorem wheel_event_axis_call:
  "(ev_code ev = REL_WHEEL \<longrightarrow>
      handle_rel_event device ev =
        (device, [Axis (timeval_to_msec (ev_time ev)) (Some WL_POINTER_AXIS_VERTICAL_SCROLL)
                    (Some (- 10 * (256 * ev_value ev)))]))
   \<and> (ev_code ev = REL_HWHEEL \<longrightarrow>
      handle_rel_event device ev =
        (device, [Axis (timeval_to_msec (ev_time ev)) (Some WL_POINTER_AXIS_HORIZONTAL_SCROLL)
                    (Some (10 * (256 * ev_value ev)))]))
   \<and> uint (timeval_to_msec (ev_time ev)) =
        (sint (tv_sec (ev_time ev)) * 1000 + sint (tv_usec (ev_time ev)) sdiv 1000) mod 2 ^ 32
   \<and> (0 \<le> sint (tv_sec (ev_time ev)) \<and> 0 \<le> sint (tv_usec (ev_time ev))
        \<and> sint (tv_sec (ev_time ev)) * 1000 + sint (tv_usec (ev_time ev)) div 1000 < 2 ^ 32 \<longrightarrow>
      uint (timeval_to_msec (ev_time ev)) =
        sint (tv_sec (ev_time ev)) * 1000 + sint (tv_usec (ev_time ev)) div 1000)
   \<and> (- 838860 \<le> sint (ev_value ev) \<and> sint (ev_value ev) \<le> 838860 \<longrightarrow>
      sint (- 10 * (256 * ev_value ev)) = - 10 * 256 * sint (ev_value ev)
      \<and> sint (10 * (256 * ev_value ev)) = 10 * 256 * sint (ev_value ev))"
proof (intro conjI impI)
  assume "ev_code ev = REL_WHEEL"
  then show "handle_rel_event device ev =
      (device, [Axis (timeval_to_msec (ev_time ev)) (Some WL_POINTER_AXIS_VERTICAL_SCROLL)
                  (Some (- 10 * (256 * ev_value ev)))])"
    by (simp add: handle_rel_event_wheel)
next
  assume "ev_code ev = REL_HWHEEL"
  then show "handle_rel_event device ev =
      (device, [Axis (timeval_to_msec (ev_time ev)) (Some WL_POINTER_AXIS_HORIZONTAL_SCROLL)
                  (Some (10 * (256 * ev_value ev)))])"
    by (simp add: handle_rel_event_hwheel)
next
  show "uint (timeval_to_msec (ev_time ev)) =
      (sint (tv_sec (ev_time ev)) * 1000 + sint (tv_usec (ev_time ev)) sdiv 1000) mod 2 ^ 32"
    unfolding timeval_to_msec_def uint_word_of_int_eq by (simp add: take_bit_eq_mod)
next
  assume "0 \<le> sint (tv_sec (ev_time ev)) \<and> 0 \<le> sint (tv_usec (ev_time ev))
        \<and> sint (tv_sec (ev_time ev)) * 1000 + sint (tv_usec (ev_time ev)) div 1000 < 2 ^ 32"
  then show "uint (timeval_to_msec (ev_time ev)) =
        sint (tv_sec (ev_time ev)) * 1000 + sint (tv_usec (ev_time ev)) div 1000"
    by (intro timeval_to_msec_exact) simp_all
next
  assume r: "- 838860 \<le> sint (ev_value ev) \<and> sint (ev_value ev) \<le> 838860"
  then show "sint (- 10 * (256 * ev_value ev)) = - 10 * 256 * sint (ev_value ev)"
    using sint_mult_2560(1) [of "ev_value ev"] by simp
  from r show "sint (10 * (256 * ev_value ev)) = 10 * 256 * sint (ev_value ev)"
    using sint_mult_2560(2) [of "ev_value ev"] by simp
qed

text \<open>
  The spec's scenario S6: value \<open>+1\<close> at time \<open>(1, 500000)\<close> gives the axis call at
  time 1500 on the vertical axis with amount \<open>-2560\<close>.
\<close>

theorem wheel_event_axis_call_witness:
  "ev_code \<lparr>ev_time = \<lparr>tv_sec = 1, tv_usec = 500000\<rparr>, ev_type = EV_REL,
             ev_code = REL_WHEEL, ev_value = 1\<rparr> = REL_WHEEL
   \<and> handle_rel_event \<lparr>motion_rel_dx = 0, motion_rel_dy = 0, motion_rel_pending = False\<rparr>
        \<lparr>ev_time = \<lparr>tv_sec = 1, tv_usec = 500000\<rparr>, ev_type = EV_REL,
           ev_code = REL_WHEEL, ev_value = 1\<rparr>
      = (\<lparr>motion_rel_dx = 0, motion_rel_dy = 0, motion_rel_pending = False\<rparr>,
         [Axis 1500 (Some WL_POINTER_AXIS_VERTICAL_SCROLL) (Some (- 2560))])
   \<and> uint (1500 :: u32) = 1500 \<and> sint (- 2560 :: s32) = - 2560"
  using wheel_event_axis_call
    [of "\<lparr>ev_time = \<lparr>tv_sec = 1, tv_usec = 500000\<rparr>, ev_type = EV_REL,
           ev_code = REL_WHEEL, ev_value = 1\<rparr>"
        "\<lparr>motion_rel_dx = 0, motion_rel_dy = 0, motion_rel_pending = False\<rparr>"]
  by (simp add: timeval_to_msec_def signed_divide_int_def)

text \<open>
  Claim C9. The claim asks that the timestamp of the trailing flush of \<^verbatim>\<open>handle_data\<close> be
  defined in every invocation. When the first read already gives \<^verbatim>\<open>-EAGAIN\<close>, the local
  \<^verbatim>\<open>event\<close> was never written and the flush is called with the time computed from it: the
  flush gets no defined timestamp, and a device with motion pending would report it to
  the seat.
\<close>

theorem handle_data_no_event_flush_time:
  "handle_data device [] = Inr (handle_motion_events device None)
   \<and> handle_data \<lparr>motion_rel_dx = 3, motion_rel_dy = 4, motion_rel_pending = True\<rparr> []
       = Inr (\<lparr>motion_rel_dx = 0, motion_rel_dy = 0, motion_rel_pending = False\<rparr>,
              [Relative_motion None 768 1024])"
  by (simp add: handle_data_def handle_motion_events_def wl_fixed_from_int_def)

text \<open>
  Claim C10. The claim asks that no \<^verbatim>\<open>EV_REL\<close> event reach the axis call with the locals
  \<^verbatim>\<open>axis\<close> and \<^verbatim>\<open>amount\<close> unassigned. The switch of \<^verbatim>\<open>handle_rel_event\<close> has no default
  case: an event with code \<^verbatim>\<open>REL_DIAL\<close> (or \<^verbatim>\<open>REL_Z\<close>) falls out of it and the axis call is
  made with both locals never assigned.
\<close>

theorem rel_dial_axis_call_unassigned:
  "handle_rel_event device
     \<lparr>ev_time = \<lparr>tv_sec = 1, tv_usec = 500000\<rparr>, ev_type = EV_REL,
        ev_code = REL_DIAL, ev_value = 1\<rparr>
     = (device, [Axis 1500 None None])
   \<and> handle_rel_event device
     \<lparr>ev_time = \<lparr>tv_sec = 1, tv_usec = 500000\<rparr>, ev_type = EV_REL,
        ev_code = REL_Z, ev_value = 1\<rparr>
     = (device, [Axis 1500 None None])"
  by (simp add: handle_rel_event_def REL_DIAL_def REL_Z_def REL_HWHEEL_def REL_WHEEL_def
        REL_X_def REL_Y_def timeval_to_msec_def signed_divide_int_def)

section \<open>Repainting an output\<close>

text \<open>
  Claim C4. After \<^verbatim>\<open>repaint_output\<close> the output's \<open>previous_damage\<close> is the damage of the
  new frame alone, the compositor's damage cut to the output's geometry, not the total
  that also holds the damage of the frame before; and the compositor's damage has lost
  that total, the new damage united with the earlier \<open>previous_damage\<close>.
\<close>

theorem repaint_output_previous_damage:
  "previous_damage (snd (repaint_output flip_ok c out)) =
     damage c \<inter> region_rect (rect_x (output_geometry out)) (rect_y (output_geometry out))
                  (rect_width (output_geometry out)) (rect_height (output_geometry out))
   \<and> damage (fst (repaint_output flip_ok c out)) =
     damage c - ((damage c \<inter> region_rect (rect_x (output_geometry out)) (rect_y (output_geometry out))
                    (rect_width (output_geometry out)) (rect_height (output_geometry out)))
                 \<union> previous_damage out)"
  by (simp add: repaint_output_def Let_def emit_def)

section \<open>Damage calculation\<close>

lemma calculate_damage_surface_opaque: "opaque (fst (calculate_damage_surface c s)) = opaque c \<union> translated_opaque s"
  by (simp add: calculate_damage_surface_def Let_def emit_def translated_opaque_def split: prod.splits)

lemma calculate_damage_surface_clip: "clip (class_state (snd (calculate_damage_surface c s))) = opaque c"
  by (simp add: calculate_damage_surface_def Let_def emit_def split: prod.splits)

lemma calculate_damage_loop_Cons_fst: "fst (calculate_damage_loop c (s # ss)) =
    fst (calculate_damage_loop (fst (calculate_damage_surface c s)) ss)"
  by (simp add: case_prod_unfold Let_def)

lemma calculate_damage_loop_Cons_snd: "snd (calculate_damage_loop c (s # ss)) =
    snd (calculate_damage_surface c s) # snd (calculate_damage_loop (fst (calculate_damage_surface c s)) ss)"
  by (simp add: case_prod_unfold Let_def)

lemma calculate_damage_loop_length: "length (snd (calculate_damage_loop c ss)) = length ss"
  by (induction ss arbitrary: c) (simp_all add: calculate_damage_loop_Cons_snd del: calculate_damage_loop.simps(2))

lemma calculate_damage_loop_opaque: "opaque (fst (calculate_damage_loop c ss)) = opaque c \<union> (\<Union>s\<in>set ss. translated_opaque s)"
  by (induction ss arbitrary: c) (auto simp: calculate_damage_loop_Cons_fst calculate_damage_surface_opaque simp del: calculate_damage_loop.simps(2))

lemma calculate_damage_loop_clip: "i < length ss \<Longrightarrow> clip (class_state (snd (calculate_damage_loop c ss) ! i)) = opaque c \<union> (\<Union>s\<in>set (take i ss). translated_opaque s)"
proof (induction ss arbitrary: c i)
  case Nil then show ?case by simp
next
  case (Cons s ss)
  show ?case
  proof (cases i)
    case 0 then show ?thesis by (simp add: calculate_damage_loop_Cons_snd calculate_damage_surface_clip del: calculate_damage_loop.simps(2))
  next
    case (Suc k)
    with Cons.prems have "k < length ss" by simp
    from Cons.IH[OF this] Suc show ?thesis
      by (auto simp: calculate_damage_loop_Cons_snd calculate_damage_surface_opaque simp del: calculate_damage_loop.simps(2))
  qed
qed

lemma calculate_damage_union_of_opaque: "opaque (calculate_damage c) = (\<Union>s\<in>set (surfaces c). translated_opaque s)"
  by (simp add: calculate_damage_def case_prod_unfold Let_def calculate_damage_loop_opaque)

lemma calculate_damage_surfaces: "surfaces (calculate_damage c) = snd (calculate_damage_loop (c\<lparr>opaque := {}\<rparr>) (surfaces c))"
  by (simp add: calculate_damage_def case_prod_unfold Let_def)

text \<open>
  Claim C5. After the damage calculation the compositor's opaque region is the union of
  the translated opaque regions of all surfaces, whatever the order of the list, and the
  clip of each surface is the union of the translated opaque regions of exactly the
  surfaces before it in the list, those above it. So a point that no surface above
  covers with its opaque region is not in the clip: the surface itself and the surfaces
  below contribute nothing to it.
\<close>

theorem calculate_damage_opaque_and_clip:
  "opaque (calculate_damage c) = (\<Union>s\<in>set (surfaces c). translated_opaque s)
   \<and> length (surfaces (calculate_damage c)) = length (surfaces c)
   \<and> (\<forall>i<length (surfaces c).
        clip (class_state (surfaces (calculate_damage c) ! i))
          = (\<Union>s\<in>set (take i (surfaces c)). translated_opaque s))
   \<and> (\<forall>i<length (surfaces c). \<forall>p.
        (\<forall>j<i. p \<notin> translated_opaque (surfaces c ! j)) \<longrightarrow>
        p \<notin> clip (class_state (surfaces (calculate_damage c) ! i)))
   \<and> (\<forall>ss. mset ss = mset (surfaces c) \<longrightarrow>
        opaque (calculate_damage (c\<lparr>surfaces := ss\<rparr>)) = opaque (calculate_damage c))"
proof (intro conjI allI impI)
  show "opaque (calculate_damage c) = (\<Union>s\<in>set (surfaces c). translated_opaque s)"
    by (rule calculate_damage_union_of_opaque)
  show "length (surfaces (calculate_damage c)) = length (surfaces c)"
    by (simp add: calculate_damage_surfaces calculate_damage_loop_length)
next
  fix i assume "i < length (surfaces c)"
  then show "clip (class_state (surfaces (calculate_damage c) ! i))
          = (\<Union>s\<in>set (take i (surfaces c)). translated_opaque s)"
    by (simp add: calculate_damage_surfaces calculate_damage_loop_clip)
next
  fix i p assume i: "i < length (surfaces c)"
    and above: "\<forall>j<i. p \<notin> translated_opaque (surfaces c ! j)"
  have "p \<notin> (\<Union>s\<in>set (take i (surfaces c)). translated_opaque s)"
  proof
    assume "p \<in> (\<Union>s\<in>set (take i (surfaces c)). translated_opaque s)"
    then obtain s where s: "s \<in> set (take i (surfaces c))" and p: "p \<in> translated_opaque s" by blast
    from s obtain j where "j < length (take i (surfaces c))" and "take i (surfaces c) ! j = s"
      by (auto simp: in_set_conv_nth)
    with i have "j < i" and "surfaces c ! j = s" by simp_all
    with above p show False by blast
  qed
  with i show "p \<notin> clip (class_state (surfaces (calculate_damage c) ! i))"
    by (simp add: calculate_damage_surfaces calculate_damage_loop_clip)
next
  fix ss assume "mset ss = mset (surfaces c)"
  then have "set ss = set (surfaces c)" by (rule mset_eq_setD)
  then show "opaque (calculate_damage (c\<lparr>surfaces := ss\<rparr>)) = opaque (calculate_damage c)"
    by (simp add: calculate_damage_union_of_opaque)
qed

lemma region_translate_rect:
  "region_translate (region_rect x y w h) dx dy = region_rect (x + dx) (y + dy) w h"
proof (rule set_eqI)
  fix p :: "int \<times> int"
  obtain a b where p: "p = (a, b)" by (cases p)
  show "p \<in> region_translate (region_rect x y w h) dx dy \<longleftrightarrow> p \<in> region_rect (x + dx) (y + dy) w h"
  proof
    assume "p \<in> region_translate (region_rect x y w h) dx dy"
    then show "p \<in> region_rect (x + dx) (y + dy) w h"
      by (auto simp: region_translate_def region_rect_def p)
  next
    assume "p \<in> region_rect (x + dx) (y + dy) w h"
    then have "(a - dx, b - dy) \<in> region_rect x y w h"
      by (auto simp: region_rect_def p)
    then have "(\<lambda>(px, py). (px + dx, py + dy)) (a - dx, b - dy) \<in> region_translate (region_rect x y w h) dx dy"
      unfolding region_translate_def by (rule imageI)
    then show "p \<in> region_translate (region_rect x y w h) dx dy"
      by (simp add: p)
  qed
qed

lemma region_rect_nonempty: "0 < w \<Longrightarrow> 0 < h \<Longrightarrow> region_rect x y w h \<noteq> {}"
  by (auto simp: region_rect_def)

lemma region_rect_inter_within:
  "x' \<le> x \<Longrightarrow> x + int w \<le> x' + int w' \<Longrightarrow> y' \<le> y \<Longrightarrow> y + int h \<le> y' + int h' \<Longrightarrow>
   region_rect x y w h \<inter> region_rect x' y' w' h' = region_rect x y w h"
  by (auto simp: region_rect_def)

lemma region_translate_empty: "region_translate {} dx dy = {}"
  by (simp add: region_translate_def)

lemma region_translate_0: "region_translate r 0 0 = r"
  by (simp add: region_translate_def)

text \<open>
  The spec's scenario S3: an opaque surface A above a surface B at the same place. A has
  the empty clip, B's clip and the compositor's opaque region are A's rectangle.
\<close>

theorem calculate_damage_opaque_and_clip_witness:
  "opaque (calculate_damage (S1_compositor\<lparr>surfaces := [S3_A, S3_B]\<rparr>)) = region_rect 0 0 100 100
   \<and> clip (class_state (surfaces (calculate_damage (S1_compositor\<lparr>surfaces := [S3_A, S3_B]\<rparr>)) ! 0)) = {}
   \<and> clip (class_state (surfaces (calculate_damage (S1_compositor\<lparr>surfaces := [S3_A, S3_B]\<rparr>)) ! 1))
        = region_rect 0 0 100 100"
  using calculate_damage_opaque_and_clip [of "S1_compositor\<lparr>surfaces := [S3_A, S3_B]\<rparr>"]
  by (simp add: S1_compositor_def S3_A_def S3_B_def translated_opaque_def region_translate_0)

section \<open>The update\<close>

lemma plane_flips_append [simp]: "plane_flips (a @ b) = plane_flips a @ plane_flips b"
  by (simp add: plane_flips_def)
lemma repaint_targets_append [simp]: "repaint_targets (a @ b) = repaint_targets a @ repaint_targets b"
  by (simp add: repaint_targets_def)
lemma frame_callbacks_append [simp]: "frame_callbacks (a @ b) = frame_callbacks a @ frame_callbacks b"
  by (simp add: frame_callbacks_def)
lemma idle_tasks_append [simp]: "idle_tasks (a @ b) = idle_tasks a + idle_tasks b"
  by (simp add: idle_tasks_def)

lemma calculate_damage_surface_frame:
  "scheduled_updates (fst (calculate_damage_surface c s)) = scheduled_updates c"
  "pending_flips (fst (calculate_damage_surface c s)) = pending_flips c"
  "outputs (fst (calculate_damage_surface c s)) = outputs c"
  "plane_flips (trace (fst (calculate_damage_surface c s))) = plane_flips (trace c)"
  "repaint_targets (trace (fst (calculate_damage_surface c s))) = repaint_targets (trace c)"
  "frame_callbacks (trace (fst (calculate_damage_surface c s))) = frame_callbacks (trace c)"
  by (simp_all add: calculate_damage_surface_def Let_def emit_def plane_flips_def
        repaint_targets_def frame_callbacks_def split: prod.splits)

lemma calculate_damage_loop_frame:
  "scheduled_updates (fst (calculate_damage_loop c ss)) = scheduled_updates c"
  "pending_flips (fst (calculate_damage_loop c ss)) = pending_flips c"
  "outputs (fst (calculate_damage_loop c ss)) = outputs c"
  "plane_flips (trace (fst (calculate_damage_loop c ss))) = plane_flips (trace c)"
  "repaint_targets (trace (fst (calculate_damage_loop c ss))) = repaint_targets (trace c)"
  "frame_callbacks (trace (fst (calculate_damage_loop c ss))) = frame_callbacks (trace c)"
  by (induction ss arbitrary: c)
     (simp_all add: calculate_damage_loop_Cons_fst calculate_damage_surface_frame del: calculate_damage_loop.simps(2))

lemma calculate_damage_unfold: "calculate_damage c =
    (fst (calculate_damage_loop (c\<lparr>opaque := {}\<rparr>) (surfaces c)))
      \<lparr>surfaces := snd (calculate_damage_loop (c\<lparr>opaque := {}\<rparr>) (surfaces c))\<rparr>"
  by (simp add: calculate_damage_def case_prod_unfold Let_def)

lemma calculate_damage_frame:
  "scheduled_updates (calculate_damage c) = scheduled_updates c"
  "pending_flips (calculate_damage c) = pending_flips c"
  "outputs (calculate_damage c) = outputs c"
  "plane_flips (trace (calculate_damage c)) = plane_flips (trace c)"
  "repaint_targets (trace (calculate_damage c)) = repaint_targets (trace c)"
  "frame_callbacks (trace (calculate_damage c)) = frame_callbacks (trace c)"
  by (simp_all add: calculate_damage_unfold calculate_damage_loop_frame)

lemma calculate_damage_surface_snd_cong: "opaque c = opaque d \<Longrightarrow>
    snd (calculate_damage_surface c s) = snd (calculate_damage_surface d s)"
  by (simp add: calculate_damage_surface_def Let_def emit_def split: prod.splits)

lemma calculate_damage_loop_snd_cong: "opaque c = opaque d \<Longrightarrow>
    snd (calculate_damage_loop c ss) = snd (calculate_damage_loop d ss)"
proof (induction ss arbitrary: c d)
  case Nil then show ?case by simp
next
  case (Cons s ss)
  have "opaque (fst (calculate_damage_surface c s)) = opaque (fst (calculate_damage_surface d s))"
    using Cons.prems by (simp add: calculate_damage_surface_opaque)
  from Cons.IH[OF this] calculate_damage_surface_snd_cong[OF Cons.prems] show ?case
    by (simp add: calculate_damage_loop_Cons_snd del: calculate_damage_loop.simps(2))
qed

lemma calculate_damage_surfaces_emit: "surfaces (calculate_damage (emit es c)) = surfaces (calculate_damage c)"
  by (simp add: calculate_damage_surfaces emit_def calculate_damage_loop_snd_cong [of "c\<lparr>trace := trace c @ es, opaque := {}\<rparr>" "c\<lparr>opaque := {}\<rparr>"])

lemma repaint_output_frame:
  "scheduled_updates (fst (repaint_output f c out)) = scheduled_updates c"
  "pending_flips (fst (repaint_output f c out)) = pending_flips c"
  "surfaces (fst (repaint_output f c out)) = surfaces c"
  "opaque (fst (repaint_output f c out)) = opaque c"
  "plane_flips (trace (fst (repaint_output f c out))) = plane_flips (trace c) @ [output_id out]"
  "repaint_targets (trace (fst (repaint_output f c out))) = repaint_targets (trace c) @ [output_id out]"
  "frame_callbacks (trace (fst (repaint_output f c out))) = frame_callbacks (trace c)"
  "output_id (snd (repaint_output f c out)) = output_id out"
  by (simp_all add: repaint_output_def Let_def emit_def plane_flips_def
        repaint_targets_def frame_callbacks_def)

lemma repaint_outputs_Cons_fst: "fst (repaint_outputs f U c (out # rest)) =
    fst (repaint_outputs f U
          (if U AND SWC_OUTPUT_MASK out \<noteq> 0 then fst (repaint_output f c out) else c) rest)"
  by (simp add: case_prod_unfold Let_def)

lemma repaint_outputs_Cons_snd: "snd (repaint_outputs f U c (out # rest)) =
    (if U AND SWC_OUTPUT_MASK out \<noteq> 0 then snd (repaint_output f c out) else out)
    # snd (repaint_outputs f U
          (if U AND SWC_OUTPUT_MASK out \<noteq> 0 then fst (repaint_output f c out) else c) rest)"
  by (simp add: case_prod_unfold Let_def)

lemma repaint_outputs_frame:
  "scheduled_updates (fst (repaint_outputs f U c os)) = scheduled_updates c"
  "pending_flips (fst (repaint_outputs f U c os)) = pending_flips c"
  "surfaces (fst (repaint_outputs f U c os)) = surfaces c"
  "opaque (fst (repaint_outputs f U c os)) = opaque c"
  "frame_callbacks (trace (fst (repaint_outputs f U c os))) = frame_callbacks (trace c)"
  by (induction os arbitrary: c)
     (simp_all add: repaint_outputs_Cons_fst repaint_output_frame del: repaint_outputs.simps(2))

lemma repaint_outputs_flips:
  "plane_flips (trace (fst (repaint_outputs f U c os))) =
     plane_flips (trace c) @ map output_id (filter (\<lambda>out. U AND SWC_OUTPUT_MASK out \<noteq> 0) os)"
  "repaint_targets (trace (fst (repaint_outputs f U c os))) =
     repaint_targets (trace c) @ map output_id (filter (\<lambda>out. U AND SWC_OUTPUT_MASK out \<noteq> 0) os)"
  by (induction os arbitrary: c)
     (simp_all add: repaint_outputs_Cons_fst repaint_output_frame del: repaint_outputs.simps(2))

lemma repaint_outputs_ids: "map output_id (snd (repaint_outputs f U c os)) = map output_id os"
  by (induction os arbitrary: c)
     (simp_all add: repaint_outputs_Cons_snd repaint_output_frame del: repaint_outputs.simps(2))

lemma repaint_outputs_untouched: "i < length os \<Longrightarrow> U AND SWC_OUTPUT_MASK (os ! i) = 0 \<Longrightarrow>
    snd (repaint_outputs f U c os) ! i = os ! i"
proof (induction os arbitrary: c i)
  case Nil then show ?case by simp
next
  case (Cons out rest)
  show ?case
  proof (cases i)
    case 0 with Cons.prems show ?thesis
      by (simp add: repaint_outputs_Cons_snd del: repaint_outputs.simps(2))
  next
    case (Suc k) with Cons.prems Cons.IH[of k] show ?thesis
      by (simp add: repaint_outputs_Cons_snd del: repaint_outputs.simps(2))
  qed
qed

lemma perform_update_nonzero: "scheduled_updates c AND NOT (pending_flips c) \<noteq> 0 \<Longrightarrow>
  perform_update f c =
    (fst (repaint_outputs f (scheduled_updates c AND NOT (pending_flips c))
           (calculate_damage (emit [Print ''performing update''] c)) (outputs c)))
    \<lparr>outputs := snd (repaint_outputs f (scheduled_updates c AND NOT (pending_flips c))
           (calculate_damage (emit [Print ''performing update''] c)) (outputs c)),
     pending_flips := pending_flips c OR (scheduled_updates c AND NOT (pending_flips c)),
     scheduled_updates := scheduled_updates c AND NOT (scheduled_updates c AND NOT (pending_flips c))\<rparr>"
  by (simp add: perform_update_def Let_def case_prod_unfold calculate_damage_frame repaint_outputs_frame emit_def)

lemma perform_update_zero: "scheduled_updates c AND NOT (pending_flips c) = 0 \<Longrightarrow> perform_update f c = c"
  by (simp add: perform_update_def)

lemma output_calls_append [simp]: "output_calls (a @ b) = output_calls a @ output_calls b"
  by (simp add: output_calls_def)

lemma repaint_output_calls:
  "output_calls (trace (fst (repaint_output f c out))) =
     output_calls (trace c) @
     [Renderer_set_target (output_id out),
      Renderer_repaint (spec_total_damage (damage c) out) (spec_total_damage (damage c) out - opaque c) (surfaces c),
      Plane_flip (output_id out)]"
  "damage (fst (repaint_output f c out)) = damage c - spec_total_damage (damage c) out"
  "snd (repaint_output f c out) = out\<lparr>previous_damage := spec_frame_damage (damage c) out\<rparr>"
  by (simp_all add: repaint_output_def Let_def emit_def output_calls_def
        spec_total_damage_def spec_frame_damage_def output_rect_def)

lemma repaint_outputs_calls:
  "output_calls (trace (fst (repaint_outputs f U c os))) =
     output_calls (trace c) @
     spec_repaint_calls (damage c) (opaque c) (surfaces c)
       (filter (\<lambda>out. U AND SWC_OUTPUT_MASK out \<noteq> 0) os)"
  "damage (fst (repaint_outputs f U c os)) =
     spec_damage_after (damage c) (filter (\<lambda>out. U AND SWC_OUTPUT_MASK out \<noteq> 0) os)"
  "snd (repaint_outputs f U c os) =
     spec_repainted_outputs (\<lambda>out. U AND SWC_OUTPUT_MASK out \<noteq> 0) (damage c) os"
  by (induction os arbitrary: c)
     (simp_all add: repaint_outputs_Cons_fst repaint_outputs_Cons_snd repaint_output_calls
        repaint_output_frame del: repaint_outputs.simps(2))

lemma calculate_damage_surface_calls:
  "output_calls (trace (fst (calculate_damage_surface c s))) = output_calls (trace c)"
  by (simp add: calculate_damage_surface_def Let_def emit_def output_calls_def split: prod.splits)

lemma calculate_damage_loop_calls:
  "output_calls (trace (fst (calculate_damage_loop c ss))) = output_calls (trace c)"
  by (induction ss arbitrary: c)
     (simp_all add: calculate_damage_loop_Cons_fst calculate_damage_surface_calls
        del: calculate_damage_loop.simps(2))

lemma calculate_damage_calls:
  "output_calls (trace (calculate_damage c)) = output_calls (trace c)"
  by (simp add: calculate_damage_unfold calculate_damage_loop_calls)

lemma calculate_damage_surface_damage_cong:
  "damage c = damage d \<Longrightarrow>
   damage (fst (calculate_damage_surface c s)) = damage (fst (calculate_damage_surface d s))"
  by (simp add: calculate_damage_surface_def Let_def emit_def split: prod.splits)

lemma calculate_damage_loop_damage_cong:
  "damage c = damage d \<Longrightarrow>
   damage (fst (calculate_damage_loop c ss)) = damage (fst (calculate_damage_loop d ss))"
proof (induction ss arbitrary: c d)
  case Nil then show ?case by simp
next
  case (Cons s ss)
  from Cons.IH [OF calculate_damage_surface_damage_cong [OF Cons.prems, of s]]
  show ?case by (simp add: calculate_damage_loop_Cons_fst del: calculate_damage_loop.simps(2))
qed

lemma calculate_damage_damage_emit:
  "damage (calculate_damage (emit es c)) = damage (calculate_damage c)"
  using calculate_damage_loop_damage_cong
    [of "c\<lparr>trace := trace c @ es, opaque := {}\<rparr>" "c\<lparr>opaque := {}\<rparr>" "surfaces c"]
  by (simp add: calculate_damage_unfold emit_def)

text \<open>
  Claim C1. With \<open>U = scheduled_updates AND NOT pending_flips\<close>: when \<open>U\<close> is empty,
  \<^verbatim>\<open>perform_update\<close> returns the compositor as it was, with nothing painted. Otherwise the
  surfaces and the opaque region are those the damage calculation leaves, and exactly
  the outputs of the list whose bit is in \<open>U\<close> are repainted, once each and in list
  order: for each of them the render target is set, the renderer repaints the total
  damage and the base, and the plane is flipped, as the spec's per-output repaint says,
  starting from the damage the calculation leaves; each repainted output has the frame's
  damage as its \<open>previous_damage\<close>, every other output is left as it was, and the
  compositor's damage has lost the totals. In both cases \<open>pending_flips\<close> gains the bits
  of \<open>U\<close> and \<open>scheduled_updates\<close> loses them.
\<close>

theorem perform_update_services_updates:
  "(scheduled_updates c AND NOT (pending_flips c) = 0 \<longrightarrow> perform_update flip_ok c = c)
   \<and> (scheduled_updates c AND NOT (pending_flips c) \<noteq> 0 \<longrightarrow>
        surfaces (perform_update flip_ok c) = surfaces (calculate_damage c)
      \<and> opaque (perform_update flip_ok c) = opaque (calculate_damage c)
      \<and> repaint_targets (trace (perform_update flip_ok c)) =
          repaint_targets (trace c) @
          map output_id (filter (\<lambda>out. (scheduled_updates c AND NOT (pending_flips c))
                                          AND SWC_OUTPUT_MASK out \<noteq> 0) (outputs c))
      \<and> plane_flips (trace (perform_update flip_ok c)) =
          plane_flips (trace c) @
          map output_id (filter (\<lambda>out. (scheduled_updates c AND NOT (pending_flips c))
                                          AND SWC_OUTPUT_MASK out \<noteq> 0) (outputs c))
      \<and> map output_id (outputs (perform_update flip_ok c)) = map output_id (outputs c)
      \<and> (\<forall>i<length (outputs c).
            (scheduled_updates c AND NOT (pending_flips c)) AND SWC_OUTPUT_MASK (outputs c ! i) = 0 \<longrightarrow>
            outputs (perform_update flip_ok c) ! i = outputs c ! i)
      \<and> output_calls (trace (perform_update flip_ok c)) =
          output_calls (trace c) @
          spec_repaint_calls (damage (calculate_damage c)) (opaque (calculate_damage c))
            (surfaces (calculate_damage c))
            (filter (\<lambda>out. (scheduled_updates c AND NOT (pending_flips c))
                              AND SWC_OUTPUT_MASK out \<noteq> 0) (outputs c))
      \<and> outputs (perform_update flip_ok c) =
          spec_repainted_outputs
            (\<lambda>out. (scheduled_updates c AND NOT (pending_flips c)) AND SWC_OUTPUT_MASK out \<noteq> 0)
            (damage (calculate_damage c)) (outputs c)
      \<and> damage (perform_update flip_ok c) =
          spec_damage_after (damage (calculate_damage c))
            (filter (\<lambda>out. (scheduled_updates c AND NOT (pending_flips c))
                              AND SWC_OUTPUT_MASK out \<noteq> 0) (outputs c)))
   \<and> pending_flips (perform_update flip_ok c) =
        pending_flips c OR (scheduled_updates c AND NOT (pending_flips c))
   \<and> scheduled_updates (perform_update flip_ok c) =
        scheduled_updates c AND NOT (scheduled_updates c AND NOT (pending_flips c))"
proof (cases "scheduled_updates c AND NOT (pending_flips c) = 0")
  case True
  then show ?thesis by (simp add: perform_update_zero)
next
  case False
  note pu = perform_update_nonzero [OF False, of flip_ok]
  have e: "surfaces (emit [Print ''performing update''] c) = surfaces c"
     "trace (emit [Print ''performing update''] c) = trace c @ [Print ''performing update'']"
    by (simp_all add: emit_def)
  have o: "opaque (calculate_damage (emit [Print ''performing update''] c)) = opaque (calculate_damage c)"
    by (simp add: calculate_damage_union_of_opaque e)
  have p: "plane_flips [Print ''performing update''] = []"
     "repaint_targets [Print ''performing update''] = []"
     "output_calls [Print ''performing update''] = []"
    by (simp_all add: plane_flips_def repaint_targets_def output_calls_def)
  let ?U = "scheduled_updates c AND NOT (pending_flips c)"
  let ?c1 = "calculate_damage (emit [Print ''performing update''] c)"
  have outs: "outputs (perform_update flip_ok c) = snd (repaint_outputs flip_ok ?U ?c1 (outputs c))"
    by (simp add: pu)
  have ids: "map output_id (outputs (perform_update flip_ok c)) = map output_id (outputs c)"
    unfolding outs by (rule repaint_outputs_ids)
  have untouched: "\<forall>i<length (outputs c). ?U AND SWC_OUTPUT_MASK (outputs c ! i) = 0 \<longrightarrow>
            outputs (perform_update flip_ok c) ! i = outputs c ! i"
    unfolding outs by (simp add: repaint_outputs_untouched)
  have spec_outs: "outputs (perform_update flip_ok c) =
      spec_repainted_outputs (\<lambda>out. ?U AND SWC_OUTPUT_MASK out \<noteq> 0)
        (damage (calculate_damage c)) (outputs c)"
    unfolding outs by (simp add: repaint_outputs_calls calculate_damage_damage_emit)
  have rest: "surfaces (perform_update flip_ok c) = surfaces (calculate_damage c)
      \<and> opaque (perform_update flip_ok c) = opaque (calculate_damage c)
      \<and> repaint_targets (trace (perform_update flip_ok c)) =
          repaint_targets (trace c) @
          map output_id (filter (\<lambda>out. ?U AND SWC_OUTPUT_MASK out \<noteq> 0) (outputs c))
      \<and> plane_flips (trace (perform_update flip_ok c)) =
          plane_flips (trace c) @
          map output_id (filter (\<lambda>out. ?U AND SWC_OUTPUT_MASK out \<noteq> 0) (outputs c))
      \<and> output_calls (trace (perform_update flip_ok c)) =
          output_calls (trace c) @
          spec_repaint_calls (damage (calculate_damage c)) (opaque (calculate_damage c))
            (surfaces (calculate_damage c))
            (filter (\<lambda>out. ?U AND SWC_OUTPUT_MASK out \<noteq> 0) (outputs c))
      \<and> damage (perform_update flip_ok c) =
          spec_damage_after (damage (calculate_damage c))
            (filter (\<lambda>out. ?U AND SWC_OUTPUT_MASK out \<noteq> 0) (outputs c))
      \<and> pending_flips (perform_update flip_ok c) = pending_flips c OR ?U
      \<and> scheduled_updates (perform_update flip_ok c) = scheduled_updates c AND NOT ?U"
    by (simp add: pu repaint_outputs_frame repaint_outputs_flips calculate_damage_frame
          calculate_damage_surfaces_emit o e p repaint_outputs_calls(1,2) calculate_damage_calls
          calculate_damage_damage_emit)
  from False ids untouched spec_outs rest show ?thesis by simp
qed

text \<open>
  The idle compositor of scenario S1 is left as it is. With the output scheduled, the
  update repaints the surface's rectangle on plane 0 and flips it once, the output's
  \<open>previous_damage\<close> is that rectangle, no damage is left, and the output's bit moves from
  scheduled to pending.
\<close>

theorem perform_update_services_updates_witness:
  "perform_update (\<lambda>i. True) S1_compositor = S1_compositor
   \<and> pending_flips (perform_update (\<lambda>i. True) (S1_compositor\<lparr>scheduled_updates := 1\<rparr>)) = 1
   \<and> scheduled_updates (perform_update (\<lambda>i. True) (S1_compositor\<lparr>scheduled_updates := 1\<rparr>)) = 0
   \<and> plane_flips (trace (perform_update (\<lambda>i. True) (S1_compositor\<lparr>scheduled_updates := 1\<rparr>))) = [0]
   \<and> output_calls (trace (perform_update (\<lambda>i. True) (S1_compositor\<lparr>scheduled_updates := 1\<rparr>))) =
       [Renderer_set_target 0,
        Renderer_repaint (region_rect 100 100 200 150) (region_rect 100 100 200 150)
          [S1_surface\<lparr>state_damage := {}\<rparr>],
        Plane_flip 0]
   \<and> outputs (perform_update (\<lambda>i. True) (S1_compositor\<lparr>scheduled_updates := 1\<rparr>)) =
       [S1_output\<lparr>previous_damage := region_rect 100 100 200 150\<rparr>]
   \<and> damage (perform_update (\<lambda>i. True) (S1_compositor\<lparr>scheduled_updates := 1\<rparr>)) = {}"
proof -
  have d: "damage (calculate_damage (S1_compositor\<lparr>scheduled_updates := 1\<rparr>)) = region_rect 100 100 200 150"
    and o: "opaque (calculate_damage (S1_compositor\<lparr>scheduled_updates := 1\<rparr>)) = {}"
    and s: "surfaces (calculate_damage (S1_compositor\<lparr>scheduled_updates := 1\<rparr>)) = [S1_surface\<lparr>state_damage := {}\<rparr>]"
    by (simp_all add: S1_compositor_def S1_surface_def calculate_damage_def
          calculate_damage_surface_def Let_def emit_def region_translate_rect region_rect_nonempty
          region_translate_empty)
  have t: "spec_total_damage (region_rect 100 100 200 150) S1_output = region_rect 100 100 200 150"
    "spec_frame_damage (region_rect 100 100 200 150) S1_output = region_rect 100 100 200 150"
    by (simp_all add: spec_total_damage_def spec_frame_damage_def output_rect_def S1_output_def
          region_rect_inter_within)
  have c: "scheduled_updates (S1_compositor\<lparr>scheduled_updates := 1\<rparr>) = 1"
    "pending_flips (S1_compositor\<lparr>scheduled_updates := 1\<rparr>) = 0"
    "outputs (S1_compositor\<lparr>scheduled_updates := 1\<rparr>) = [S1_output]"
    "trace (S1_compositor\<lparr>scheduled_updates := 1\<rparr>) = []"
    "scheduled_updates S1_compositor = 0" "pending_flips S1_compositor = 0"
    by (simp_all add: S1_compositor_def)
  have m: "SWC_OUTPUT_MASK S1_output = 1" "output_id S1_output = 0"
    by (simp_all add: SWC_OUTPUT_MASK_def S1_output_def)
  show ?thesis
    using perform_update_services_updates [of S1_compositor "\<lambda>i. True"]
      perform_update_services_updates [of "S1_compositor\<lparr>scheduled_updates := 1\<rparr>" "\<lambda>i. True"]
    by (simp add: d o s t c m plane_flips_def output_calls_def)
qed

text \<open>
  The spec's scenario S1, run through the model: one surface with its whole area damaged
  on one output. After \<^verbatim>\<open>swc_compositor_schedule_update\<close> and the idle task the damage
  is empty, the output's \<open>previous_damage\<close> is the surface's rectangle, plane 0 was
  flipped once, and the output's bit is pending and no longer scheduled.
\<close>

lemma scenario_S1:
  "damage (perform_update (\<lambda>i. True) (swc_compositor_schedule_update S1_compositor S1_output)) = {}
   \<and> map previous_damage (outputs (perform_update (\<lambda>i. True)
         (swc_compositor_schedule_update S1_compositor S1_output))) = [region_rect 100 100 200 150]
   \<and> plane_flips (trace (perform_update (\<lambda>i. True)
         (swc_compositor_schedule_update S1_compositor S1_output))) = [0]
   \<and> pending_flips (perform_update (\<lambda>i. True)
         (swc_compositor_schedule_update S1_compositor S1_output)) = 1
   \<and> scheduled_updates (perform_update (\<lambda>i. True)
         (swc_compositor_schedule_update S1_compositor S1_output)) = 0"
  by (simp add: perform_update_def swc_compositor_schedule_update_def S1_compositor_def
        S1_output_def S1_surface_def SWC_OUTPUT_MASK_def emit_def Let_def calculate_damage_def
        calculate_damage_surface_def repaint_output_def region_translate_rect
        region_rect_nonempty region_rect_inter_within plane_flips_def)

section \<open>Page flips\<close>

lemma perform_update_frame_callbacks: "frame_callbacks (trace (perform_update f c)) = frame_callbacks (trace c)"
proof (cases "scheduled_updates c AND NOT (pending_flips c) = 0")
  case True then show ?thesis by (simp add: perform_update_zero)
next
  case False
  have "frame_callbacks (trace (emit [Print ''performing update''] c)) = frame_callbacks (trace c)"
    by (simp add: emit_def frame_callbacks_def)
  then show ?thesis
    by (simp add: perform_update_nonzero [OF False] repaint_outputs_frame calculate_damage_frame)
qed

lemma frame_callbacks_map: "frame_callbacks (map (\<lambda>s. Send_frame_callbacks s t) ss) = map (\<lambda>s. (s, t)) ss"
  by (induction ss) (simp_all add: frame_callbacks_def)

lemma schedule_update_pending:
  "pending_flips (swc_compositor_schedule_update c out) = pending_flips c"
  by (simp add: swc_compositor_schedule_update_def Let_def emit_def)

lemma perform_update_pending:
  "pending_flips (perform_update f c) = pending_flips c OR (scheduled_updates c AND NOT (pending_flips c))"
proof (cases "scheduled_updates c AND NOT (pending_flips c) = 0")
  case True then show ?thesis by (simp add: perform_update_zero)
next
  case False then show ?thesis by (simp add: perform_update_nonzero)
qed

lemma handle_drm_event_pending:
  "pending_flips (handle_drm_event f c (SWC_DRM_PAGE_FLIP d)) =
     (pending_flips c AND NOT (SWC_OUTPUT_MASK (event_output d)))
     OR (scheduled_updates c AND NOT (pending_flips c AND NOT (SWC_OUTPUT_MASK (event_output d))))"
proof -
  let ?p = "pending_flips c AND NOT (SWC_OUTPUT_MASK (event_output d))"
  let ?c1 = "c\<lparr>pending_flips := ?p\<rparr>"
  let ?c2 = "if ?p = 0
             then emit (map (\<lambda>surface. Send_frame_callbacks surface (event_time d)) (surfaces ?c1)) ?c1
             else ?c1"
  have fields: "pending_flips ?c2 = ?p" "scheduled_updates ?c2 = scheduled_updates c"
    by (simp_all add: emit_def)
  have unfold: "handle_drm_event f c (SWC_DRM_PAGE_FLIP d) =
      (if scheduled_updates c \<noteq> 0 then perform_update f ?c2 else ?c2)"
    by (simp add: handle_drm_event_def Let_def emit_def)
  show ?thesis
  proof (cases "scheduled_updates c = 0")
    case True
    then show ?thesis unfolding unfold using fields(1) by simp
  next
    case False
    then have "handle_drm_event f c (SWC_DRM_PAGE_FLIP d) = perform_update f ?c2"
      unfolding unfold by (rule if_P)
    then show ?thesis
      by (simp only: perform_update_pending fields)
  qed
qed

lemma handle_tty_event_pending: "pending_flips (handle_tty_event c e) = pending_flips c"
  by (cases e) (simp_all add: handle_tty_event_def emit_def)

lemma handle_key_pending: "pending_flips (snd (handle_key c time k state)) = pending_flips c"
  by (simp add: handle_key_def Let_def emit_def case_prod_unfold)

lemma mask_bit: "(w :: u32) AND SWC_OUTPUT_MASK out \<noteq> 0 \<longleftrightarrow> bit w (output_id out)"
  by (simp add: SWC_OUTPUT_MASK_def bit_iff_and_push_bit_not_eq_0)

lemma flips_submitted_bit:
  "i \<in> flips_submitted f c \<Longrightarrow> bit (scheduled_updates c AND NOT (pending_flips c)) i"
  by (auto simp: flips_submitted_def mask_bit)

lemma bit_clear_other:
  "bit (w :: u32) j \<Longrightarrow> j \<noteq> output_id out \<Longrightarrow> bit (w AND NOT (SWC_OUTPUT_MASK out)) j"
  by (auto simp: SWC_OUTPUT_MASK_def bit_simps dest: bit_imp_le_length)

lemma in_flight_pending:
  "reachable (c, in_flight) \<Longrightarrow> i \<in> in_flight \<Longrightarrow> bit (pending_flips c) i"
proof (induction "(c, in_flight)" arbitrary: c in_flight i rule: reachable.induct)
  case (initialize c) then show ?case by simp
next
  case (schedule_update c in_flight out)
  then show ?case by (simp add: schedule_update_pending)
next
  case (idle c in_flight flip_ok)
  then show ?case
    by (auto simp: perform_update_pending bit_simps dest: flips_submitted_bit)
next
  case (page_flip c in_flight d flip_ok)
  from page_flip.prems consider
      (old) "i \<in> in_flight" "i \<noteq> output_id (event_output d)"
    | (new) "i \<in> flips_submitted flip_ok
                (c\<lparr>pending_flips := pending_flips c AND NOT (SWC_OUTPUT_MASK (event_output d))\<rparr>)"
    by auto
  then show ?case
  proof cases
    case old
    from page_flip.hyps(2) [OF old(1)] old(2)
    have "bit (pending_flips c AND NOT (SWC_OUTPUT_MASK (event_output d))) i"
      by (rule bit_clear_other)
    then show ?thesis by (simp add: handle_drm_event_pending bit_simps)
  next
    case new
    from flips_submitted_bit [OF new] show ?thesis
      by (simp add: handle_drm_event_pending bit_simps)
  qed
next
  case (tty_event c in_flight e)
  then show ?case by (simp add: handle_tty_event_pending)
next
  case (key c in_flight time k state)
  then show ?case by (simp add: handle_key_pending)
next
  case (add_key_binding c in_flight mods v h dat)
  then show ?case by (simp add: swc_compositor_add_key_binding_def)
next
  case (surfaces_changed c in_flight ss)
  then show ?case by simp
qed

text \<open>
  Claim C2. In every run, for every page-flip event the handler processes (the event of
  a flip in flight): \<open>pending_flips\<close> is not zero before the event and holds the output's
  bit; the handler clears that bit, and the frame callbacks are sent, once to every
  surface in list order with the time of the event, exactly when \<open>pending_flips\<close> is zero
  with the bit cleared, that is when it steps from non-zero to zero, and not at all when
  it is still non-zero then. The update that may follow in the handler sends no frame
  callback; after it \<open>pending_flips\<close> is the cleared mask with the bits of that update.
\<close>

theorem page_flip_frame_callbacks:
  assumes "reachable (c, in_flight)" and "output_id (event_output d) \<in> in_flight"
  shows "pending_flips c \<noteq> 0
   \<and> pending_flips c AND SWC_OUTPUT_MASK (event_output d) \<noteq> 0
   \<and> frame_callbacks (trace (handle_drm_event flip_ok c (SWC_DRM_PAGE_FLIP d))) =
       frame_callbacks (trace c) @
       (if pending_flips c AND NOT (SWC_OUTPUT_MASK (event_output d)) = 0
        then map (\<lambda>s. (s, event_time d)) (surfaces c) else [])
   \<and> pending_flips (handle_drm_event flip_ok c (SWC_DRM_PAGE_FLIP d)) =
       (pending_flips c AND NOT (SWC_OUTPUT_MASK (event_output d)))
       OR (scheduled_updates c AND NOT (pending_flips c AND NOT (SWC_OUTPUT_MASK (event_output d))))
   \<and> (scheduled_updates c = 0 \<longrightarrow>
       pending_flips (handle_drm_event flip_ok c (SWC_DRM_PAGE_FLIP d)) =
         pending_flips c AND NOT (SWC_OUTPUT_MASK (event_output d)))"
proof -
  from in_flight_pending [OF assms]
  have b: "pending_flips c AND SWC_OUTPUT_MASK (event_output d) \<noteq> 0"
    by (simp add: mask_bit)
  then have nz: "pending_flips c \<noteq> 0" by auto
  have cb: "frame_callbacks (trace (handle_drm_event flip_ok c (SWC_DRM_PAGE_FLIP d))) =
       frame_callbacks (trace c) @
       (if pending_flips c AND NOT (SWC_OUTPUT_MASK (event_output d)) = 0
        then map (\<lambda>s. (s, event_time d)) (surfaces c) else [])"
    by (simp add: handle_drm_event_def Let_def perform_update_frame_callbacks emit_def
          frame_callbacks_map)
  from b nz cb show ?thesis by (simp add: handle_drm_event_pending)
qed

text \<open>
  The spec's scenarios S1 and S2 as a run: the output is scheduled, the idle task
  submits its flip, and the page flip at time 42 sends the frame callback to the surface
  with time 42 and leaves \<open>pending_flips\<close> zero.
\<close>

theorem page_flip_frame_callbacks_witness:
  "reachable (perform_update (\<lambda>i. True) (swc_compositor_schedule_update S1_compositor S1_output),
              {} \<union> flips_submitted (\<lambda>i. True) (swc_compositor_schedule_update S1_compositor S1_output))
   \<and> output_id (event_output \<lparr>event_output = S1_output, event_time = 42\<rparr>)
        \<in> {} \<union> flips_submitted (\<lambda>i. True) (swc_compositor_schedule_update S1_compositor S1_output)
   \<and> pending_flips (perform_update (\<lambda>i. True)
        (swc_compositor_schedule_update S1_compositor S1_output)) = 1
   \<and> frame_callbacks (trace (handle_drm_event (\<lambda>i. True)
        (perform_update (\<lambda>i. True) (swc_compositor_schedule_update S1_compositor S1_output))
        (SWC_DRM_PAGE_FLIP \<lparr>event_output = S1_output, event_time = 42\<rparr>)))
       = [(S1_surface\<lparr>state_damage := {}\<rparr>, 42)]
   \<and> pending_flips (handle_drm_event (\<lambda>i. True)
        (perform_update (\<lambda>i. True) (swc_compositor_schedule_update S1_compositor S1_output))
        (SWC_DRM_PAGE_FLIP \<lparr>event_output = S1_output, event_time = 42\<rparr>)) = 0"
proof -
  let ?sched = "swc_compositor_schedule_update S1_compositor S1_output"
  let ?upd = "perform_update (\<lambda>i. True) ?sched"
  let ?d = "\<lparr>event_output = S1_output, event_time = 42\<rparr>"
  have "reachable (S1_compositor, {})"
    by (rule reachable.initialize) (simp_all add: S1_compositor_def)
  then have "reachable (?sched, {})" by (rule reachable.schedule_update)
  then have r: "reachable (?upd, {} \<union> flips_submitted (\<lambda>i. True) ?sched)" by (rule reachable.idle)
  have f: "output_id (event_output ?d) \<in> {} \<union> flips_submitted (\<lambda>i. True) ?sched"
    by (simp add: flips_submitted_def swc_compositor_schedule_update_def S1_compositor_def
          S1_output_def SWC_OUTPUT_MASK_def emit_def Let_def)
  have state: "pending_flips ?upd = 1" "scheduled_updates ?upd = 0"
      "surfaces ?upd = [S1_surface\<lparr>state_damage := {}\<rparr>]" "frame_callbacks (trace ?upd) = []"
    by (simp_all add: perform_update_def swc_compositor_schedule_update_def S1_compositor_def
        S1_output_def S1_surface_def SWC_OUTPUT_MASK_def emit_def Let_def calculate_damage_def
        calculate_damage_surface_def repaint_output_def region_translate_rect
        region_rect_nonempty region_rect_inter_within frame_callbacks_def)
  have m: "SWC_OUTPUT_MASK S1_output = 1" by (simp add: SWC_OUTPUT_MASK_def S1_output_def)
  from page_flip_frame_callbacks [OF r f, of "\<lambda>i. True"] r f show ?thesis
    by (simp add: state m)
qed

section \<open>VT switches\<close>

text \<open>
  Claim C3, as stated, fails: on \<^verbatim>\<open>VT_ENTER\<close> the handler calls \<^verbatim>\<open>swc_drm_set_master\<close> and
  nothing else. The output of the idle compositor of scenario S1 is not scheduled after
  the event.
\<close>

theorem vt_enter_schedules_no_output:
  "S1_output \<in> set (outputs S1_compositor)
   \<and> scheduled_updates (handle_tty_event S1_compositor SWC_TTY_VT_ENTER)
        AND SWC_OUTPUT_MASK S1_output = 0"
  by (simp add: handle_tty_event_def S1_compositor_def emit_def)

text \<open>
  Claim C3, amended. On every \<^verbatim>\<open>VT_ENTER\<close> event the handler calls \<^verbatim>\<open>swc_drm_set_master\<close>
  and changes nothing in the compositor: \<open>scheduled_updates\<close>, \<open>pending_flips\<close>, the damage
  and the outputs are as before, and no output is scheduled by it.
\<close>

theorem vt_enter_sets_master_only:
  "handle_tty_event c SWC_TTY_VT_ENTER = c\<lparr>trace := trace c @ [Drm_set_master]\<rparr>"
  by (simp add: handle_tty_event_def emit_def)

section \<open>Scheduling an update\<close>

lemma mask_nonzero: "output_id out < 32 \<Longrightarrow> SWC_OUTPUT_MASK out \<noteq> 0"
  by (simp add: SWC_OUTPUT_MASK_def)

lemma schedule_update_bit: "output_id out < 32 \<Longrightarrow>
   scheduled_updates (swc_compositor_schedule_update c out) AND SWC_OUTPUT_MASK out \<noteq> 0"
  by (auto simp: swc_compositor_schedule_update_def Let_def emit_def mask_nonzero bit.conj_disj_distrib2)


lemma schedule_update_twice: "output_id out < 32 \<Longrightarrow>
  swc_compositor_schedule_update (swc_compositor_schedule_update c out) out
    = swc_compositor_schedule_update c out"
  using schedule_update_bit [of out c]
  by (simp add: swc_compositor_schedule_update_def [of "swc_compositor_schedule_update c out"])

lemma schedule_update_nonzero: "output_id out < 32 \<Longrightarrow>
   scheduled_updates (swc_compositor_schedule_update c out) \<noteq> 0"
  using schedule_update_bit [of out c] by auto

lemma schedule_update_idle: "output_id out < 32 \<Longrightarrow>
   idle_tasks (trace (swc_compositor_schedule_update c out)) =
     idle_tasks (trace c) + (if scheduled_updates c = 0 then 1 else 0)"
  by (auto simp: swc_compositor_schedule_update_def Let_def emit_def idle_tasks_def)

lemma schedule_update_fold: "(\<forall>out\<in>set os. output_id out < 32) \<Longrightarrow>
   idle_tasks (trace (foldl swc_compositor_schedule_update c os)) =
     idle_tasks (trace c) + (if scheduled_updates c = 0 \<and> os \<noteq> [] then 1 else 0)"
proof (induction os arbitrary: c)
  case Nil then show ?case by simp
next
  case (Cons out os)
  then have lt: "output_id out < 32" and rest: "\<forall>out\<in>set os. output_id out < 32" by simp_all
  show ?case
    using Cons.IH [OF rest, of "swc_compositor_schedule_update c out"]
      schedule_update_idle [OF lt, of c] schedule_update_nonzero [OF lt, of c]
    by simp
qed

text \<open>
  Claim C6. For an output with a bit in the 32-bit mask (a number below 32), scheduling
  it twice is the same as scheduling it once: after the first call its bit is set, so
  the second call returns at once. A sequence of \<^verbatim>\<open>swc_compositor_schedule_update\<close> calls
  adds one \<^verbatim>\<open>perform_update\<close> idle task when \<open>scheduled_updates\<close> was zero before the
  first call and none otherwise, so at most one.
\<close>

theorem schedule_update_idempotent_one_idle_task:
  "(output_id out < 32 \<longrightarrow>
      swc_compositor_schedule_update (swc_compositor_schedule_update c out) out
        = swc_compositor_schedule_update c out
      \<and> scheduled_updates (swc_compositor_schedule_update c out) AND SWC_OUTPUT_MASK out \<noteq> 0)
   \<and> ((\<forall>out\<in>set os. output_id out < 32) \<longrightarrow>
      idle_tasks (trace (foldl swc_compositor_schedule_update c os)) =
        idle_tasks (trace c) + (if scheduled_updates c = 0 \<and> os \<noteq> [] then 1 else 0)
      \<and> idle_tasks (trace (foldl swc_compositor_schedule_update c os)) \<le> idle_tasks (trace c) + 1)"
  using schedule_update_twice [of out c] schedule_update_bit [of out c] schedule_update_fold [of os c] by simp

text \<open>
  Scheduling the output of scenario S1 twice from the idle compositor: one idle task.
\<close>

theorem schedule_update_idempotent_one_idle_task_witness:
  "output_id S1_output < 32
   \<and> swc_compositor_schedule_update (swc_compositor_schedule_update S1_compositor S1_output) S1_output
       = swc_compositor_schedule_update S1_compositor S1_output
   \<and> idle_tasks (trace (foldl swc_compositor_schedule_update S1_compositor [S1_output, S1_output])) = 1"
proof -
  have a: "output_id S1_output < 32" by (simp add: S1_output_def)
  have b: "scheduled_updates S1_compositor = 0" "trace S1_compositor = []"
    by (simp_all add: S1_compositor_def)
  have c: "idle_tasks [] = 0" by (simp add: idle_tasks_def)
  show ?thesis
    using schedule_update_idempotent_one_idle_task [of S1_output S1_compositor "[S1_output, S1_output]"] a b c by auto
qed

section \<open>Key bindings\<close>

lemma key_modifiers_eq: "key_modifiers s key = effective_modifiers s key"
  by (simp add: key_modifiers_def effective_modifiers_def Let_def
        xkb_state_mod_mask_remove_consumed_def bit_iff_and_push_bit_not_eq_0 ac_simps)

lemma scan_find: "scan_bindings s time key keysym bs =
    (case find (binding_matches s key keysym) bs of
       None \<Rightarrow> (False, [])
     | Some b \<Rightarrow> (True, [Call_binding_handler (binding_handler b) time keysym (binding_data b),
                          Print ''-> handled'']))"
  by (induction bs) (simp_all add: binding_matches_def key_modifiers_eq Let_def)

lemma find_Some_in: "find P xs = Some x \<Longrightarrow> x \<in> set xs \<and> P x"
  by (induction xs) (auto split: if_splits)

text \<open>
  Claim C7. For a pressed key, \<^verbatim>\<open>handle_key\<close> finds the first binding of the sequence that
  matches by the spec's rule (value equal to the keysym of the key, and modifiers either
  the sentinel ANY or equal to the effective modifiers with the consumed ones removed),
  calls its handler with the time, the keysym and the binding's data, and returns true;
  it returns true exactly when some binding matches, and with no match the compositor is
  unchanged. A key that is not pressed is never swallowed.
\<close>

theorem handle_key_first_matching_binding:
  "(state = WL_KEYBOARD_KEY_STATE_PRESSED \<longrightarrow>
      handle_key c time key state =
        (case find (binding_matches (seat c) key (key_get_one_sym (xkb_st (seat c)) (key + 8)))
                (key_bindings c) of
           None \<Rightarrow> (False, c)
         | Some b \<Rightarrow>
             (True, c\<lparr>trace := trace c @
                [Call_binding_handler (binding_handler b) time
                   (key_get_one_sym (xkb_st (seat c)) (key + 8)) (binding_data b),
                 Print ''-> handled'']\<rparr>))
      \<and> (fst (handle_key c time key state) \<longleftrightarrow>
           (\<exists>b\<in>set (key_bindings c).
              binding_matches (seat c) key (key_get_one_sym (xkb_st (seat c)) (key + 8)) b)))
   \<and> (state \<noteq> WL_KEYBOARD_KEY_STATE_PRESSED \<longrightarrow> handle_key c time key state = (False, c))"
proof (intro conjI impI)
  assume p: "state = WL_KEYBOARD_KEY_STATE_PRESSED"
  then show "handle_key c time key state =
        (case find (binding_matches (seat c) key (key_get_one_sym (xkb_st (seat c)) (key + 8)))
                (key_bindings c) of
           None \<Rightarrow> (False, c)
         | Some b \<Rightarrow>
             (True, c\<lparr>trace := trace c @
                [Call_binding_handler (binding_handler b) time
                   (key_get_one_sym (xkb_st (seat c)) (key + 8)) (binding_data b),
                 Print ''-> handled'']\<rparr>))"
    by (simp add: handle_key_def Let_def scan_find emit_def split: option.splits)
  from p show "fst (handle_key c time key state) \<longleftrightarrow>
           (\<exists>b\<in>set (key_bindings c).
              binding_matches (seat c) key (key_get_one_sym (xkb_st (seat c)) (key + 8)) b)"
    by (auto simp: handle_key_def Let_def scan_find find_None_iff split: option.splits
          dest: find_Some_in)
next
  assume "state \<noteq> WL_KEYBOARD_KEY_STATE_PRESSED"
  then show "handle_key c time key state = (False, c)"
    by (simp add: handle_key_def)
qed

text \<open>
  The spec's scenario S4: Shift and Control are effective and the key consumes Shift; the
  binding registered for Control alone matches. The release of the key is not swallowed.
\<close>

theorem handle_key_first_matching_binding_witness:
  "handle_key S1_compositor 10 14 WL_KEYBOARD_KEY_STATE_PRESSED =
     (True, S1_compositor\<lparr>trace := [Call_binding_handler 1 10 0xff08 0, Print ''-> handled'']\<rparr>)
   \<and> handle_key S1_compositor 10 14 WL_KEYBOARD_KEY_STATE_RELEASED = (False, S1_compositor)"
  using handle_key_first_matching_binding [of WL_KEYBOARD_KEY_STATE_PRESSED S1_compositor 10 14]
        handle_key_first_matching_binding [of WL_KEYBOARD_KEY_STATE_RELEASED S1_compositor 10 14]
  by (simp add: S1_compositor_def S4_seat_def binding_matches_def effective_modifiers_def
        SWC_MOD_CTRL_def SWC_MOD_ALT_def SWC_MOD_LOGO_def SWC_MOD_SHIFT_def SWC_MOD_ANY_def
        WL_KEYBOARD_KEY_STATE_PRESSED_def WL_KEYBOARD_KEY_STATE_RELEASED_def)

end
